theory Spec2Isabelle
  imports Main
begin

text \<open>
  A model of the WHOOP MCP server's credential lifecycle and session routing: the token
  store, the OAuth exchange client, the authenticated API client, and the HTTP routes that
  hold the pending-authorization registry and the session map. Asynchronous functions are
  modelled as run to completion, one after the other: no other request runs between two
  \<open>await\<close>s of one call. A function that can throw returns a sum, \<open>Inl\<close> the error.
\<close>

section \<open>Credential store (src/auth/token-store.ts)\<close>

text \<open>
  The interface \<open>TokenSet\<close>. \<open>expiresAt\<close> is an epoch-millisecond count; JavaScript numbers
  are modelled as integers (all values of the program that matter here are integral and
  far below \<open>2 ^ 53\<close>, where double arithmetic is exact).
\<close>

record TokenSet =
  accessToken :: string
  refreshToken :: string
  expiresAt :: int
  scope :: string
  tokenType :: string

text \<open>
  \<open>TokenFileContents\<close> is a plain JavaScript object used as a dictionary. The map holds its
  own properties. The JSON document on disk is kept in parsed form: on objects of this shape
  \<open>JSON.parse\<close> undoes \<open>JSON.stringify\<close>, own properties and nothing else are serialised.
\<close>

type_synonym TokenFileContents = "string \<rightharpoonup> TokenSet"

text \<open>
  A plain object inherits from \<open>Object.prototype\<close>. These are the property names found there;
  each of them holds a function, except \<open>__proto__\<close>, an accessor that returns (and sets) the
  prototype itself.
\<close>

definition Object_prototype :: "string list" where
  "Object_prototype =
     [''constructor'', ''__defineGetter__'', ''__defineSetter__'', ''hasOwnProperty'',
      ''__lookupGetter__'', ''__lookupSetter__'', ''isPrototypeOf'', ''propertyIsEnumerable'',
      ''toString'', ''valueOf'', ''__proto__'', ''toLocaleString'']"

text \<open>
  What \<open>contents[key] ?? null\<close> evaluates to: \<open>null\<close>, a stored record, or the member of
  \<open>Object.prototype\<close> of that name (an object that is not a TokenSet: every field read from
  it is \<open>undefined\<close>).
\<close>

datatype TokenSet_or_null = Null | Token TokenSet | Inherited string

definition property_get :: "TokenFileContents \<Rightarrow> string \<Rightarrow> TokenSet_or_null" where
  \<comment> \<open>\<open>contents[key] ?? null\<close>: own property first, then the prototype chain\<close>
  "property_get contents key =
     (case contents key of
        Some t \<Rightarrow> Token t
      | None \<Rightarrow> if key \<in> set Object_prototype then Inherited key else Null)"

definition property_set :: "TokenFileContents \<Rightarrow> string \<Rightarrow> TokenSet \<Rightarrow> TokenFileContents" where
  \<comment> \<open>\<open>contents[key] = tokenSet\<close>: without an own property of that name, the assignment to
      \<open>__proto__\<close> runs the inherited setter, which replaces the prototype and adds no own
      property; every other name gets an own property\<close>
  "property_set contents key tokenSet =
     (if key = ''__proto__'' \<and> contents key = None then contents
      else contents(key \<mapsto> tokenSet))"

definition property_delete :: "TokenFileContents \<Rightarrow> string \<Rightarrow> TokenFileContents" where
  \<comment> \<open>\<open>delete contents[key]\<close> removes an own property only\<close>
  "property_delete contents key = contents(key := None)"

subsection \<open>The file system as the store sees it\<close>

datatype errno = ENOENT | EROFS | EACCES | EIO

datatype error =
    ErrnoException errno
  | AxiosError nat
  | No_WHOOP_token_available
  | No_stored_WHOOP_refresh_token
  | SdkError

type_synonym path = string

text \<open>
  \<open>files p\<close> is what \<open>fs.readFile\<close> and \<open>JSON.parse\<close> give at \<open>p\<close>: an error code (\<open>ENOENT\<close>:
  no such file; \<open>EIO\<close> stands for every other failure) or the document. \<open>mkdir_error\<close> and
  \<open>write_error\<close> say where \<open>fs.mkdir\<close> and \<open>fs.writeFile\<close> reject; \<open>tmpdir\<close> is
  \<open>os.tmpdir()\<close>. Paths are absolute POSIX paths.
\<close>

record filesystem =
  files :: "path \<Rightarrow> errno + TokenFileContents"
  mkdir_error :: "path \<Rightarrow> errno option"
  write_error :: "path \<Rightarrow> errno option"
  tmpdir :: path

record TokenStore =
  absolutePath :: path

definition basename :: "path \<Rightarrow> path" where
  "basename p = rev (takeWhile (\<lambda>c. c \<noteq> CHR ''/'') (rev p))"

definition dirname :: "path \<Rightarrow> path" where
  "dirname p =
     (let d = rev (drop 1 (dropWhile (\<lambda>c. c \<noteq> CHR ''/'') (rev p)))
      in if d = [] then ''/'' else d)"

definition path_join :: "path \<Rightarrow> path \<Rightarrow> path" where
  "path_join a b = a @ ''/'' @ b"

definition startsWith :: "string \<Rightarrow> string \<Rightarrow> bool" where
  "startsWith s pre = (take (length pre) s = pre)"

text \<open>
  \<open>ensureDir\<close>: when creating the directory fails with one of three codes and the path is
  not yet under the temporary directory, the store moves to
  \<open>tmpdir/whoop-tokens/basename\<close> and keeps that path, also when the second \<open>mkdir\<close> throws.
\<close>

definition ensureDir :: "filesystem \<Rightarrow> TokenStore \<Rightarrow> (error + unit) \<times> TokenStore" where
  "ensureDir fs st =
     (case mkdir_error fs (dirname (absolutePath st)) of
        None \<Rightarrow> (Inr (), st)
      | Some code \<Rightarrow>
          if (code = ENOENT \<or> code = EROFS \<or> code = EACCES)
             \<and> \<not> startsWith (absolutePath st) (tmpdir fs)
          then
            (let fallbackDir = path_join (tmpdir fs) ''whoop-tokens'';
                 st' = st\<lparr>absolutePath := path_join fallbackDir (basename (absolutePath st))\<rparr>
             in case mkdir_error fs fallbackDir of
                  None \<Rightarrow> (Inr (), st')
                | Some code' \<Rightarrow> (Inl (ErrnoException code'), st'))
          else (Inl (ErrnoException code), st))"

definition readFile :: "filesystem \<Rightarrow> TokenStore \<Rightarrow> error + TokenFileContents" where
  "readFile fs st =
     (case files fs (absolutePath st) of
        Inr contents \<Rightarrow> Inr contents
      | Inl code \<Rightarrow> if code = ENOENT then Inr Map.empty else Inl (ErrnoException code))"

definition writeFile ::
  "filesystem \<Rightarrow> TokenStore \<Rightarrow> TokenFileContents \<Rightarrow> (error + unit) \<times> filesystem \<times> TokenStore"
where
  "writeFile fs st contents =
     (case ensureDir fs st of
        (Inl e, st') \<Rightarrow> (Inl e, fs, st')
      | (Inr _, st') \<Rightarrow>
          (case write_error fs (absolutePath st') of
             Some code \<Rightarrow> (Inl (ErrnoException code), fs, st')
           | None \<Rightarrow>
               (Inr (), fs\<lparr>files := (files fs)(absolutePath st' := Inr contents)\<rparr>, st')))"

text \<open>
  The three operations of the file store (the class \<open>TokenStore\<close>, and \<open>FileTokenStore\<close>
  in the variant with a second backend, have the same code). A call that leaves the key out
  passes \<open>''default''\<close>.
\<close>

definition TokenStore_get :: "filesystem \<Rightarrow> TokenStore \<Rightarrow> string \<Rightarrow> error + TokenSet_or_null" where
  "TokenStore_get fs st key =
     (case readFile fs st of
        Inl e \<Rightarrow> Inl e
      | Inr contents \<Rightarrow> Inr (property_get contents key))"

definition TokenStore_set ::
  "filesystem \<Rightarrow> TokenStore \<Rightarrow> TokenSet \<Rightarrow> string \<Rightarrow> (error + unit) \<times> filesystem \<times> TokenStore"
where
  "TokenStore_set fs st tokenSet key =
     (case readFile fs st of
        Inl e \<Rightarrow> (Inl e, fs, st)
      | Inr contents \<Rightarrow> writeFile fs st (property_set contents key tokenSet))"

definition TokenStore_clear ::
  "filesystem \<Rightarrow> TokenStore \<Rightarrow> string \<Rightarrow> (error + unit) \<times> filesystem \<times> TokenStore"
where
  "TokenStore_clear fs st key =
     (case readFile fs st of
        Inl e \<Rightarrow> (Inl e, fs, st)
      | Inr contents \<Rightarrow> writeFile fs st (property_delete contents key))"

section \<open>OAuth exchange client (src/auth/whoop-oauth.ts)\<close>

text \<open>
  The provider's token response. The code reads \<open>refresh_token\<close> through \<open>??\<close>, so the field
  may be missing (or \<open>null\<close>): \<open>None\<close>. The response's \<open>scope\<close> field is \<open>scope_resp\<close> here.
\<close>

record OAuthTokenResponse =
  access_token :: string
  refresh_token :: "string option"
  expires_in :: int
  scope_resp :: string
  token_type :: string

text \<open>\<open>AuthorizationUrlParams\<close>; its field \<open>key\<close> is never read and is left out.\<close>

record AuthorizationUrlParams =
  state :: "string option"
  scopes :: "string list option"
  redirect :: "string option"

record config =
  baseUrl :: string
  apiKey :: "string option"
  clientId :: string
  clientSecret :: string
  redirectPath :: string
  defaultScopes :: "string list"

definition redirectUri :: "config \<Rightarrow> string" where
  "redirectUri cfg = baseUrl cfg @ redirectPath cfg"

definition authorizeUrl :: string where
  "authorizeUrl = ''https://api.prod.whoop.com/oauth/oauth2/auth''"

subsection \<open>\<open>qs.stringify\<close> and \<open>Array.prototype.join\<close>\<close>

text \<open>
  Strings are byte strings (UTF-8). \<open>qs.stringify\<close> leaves out a field whose value is
  \<open>undefined\<close> (\<open>None\<close>), percent-encodes every byte that is not a letter, a digit or one of
  \<open>- . _ ~\<close>, and joins \<open>name=value\<close> with \<open>&\<close>.
\<close>

definition unreserved :: "char \<Rightarrow> bool" where
  "unreserved c =
     (c \<in> set ''ABCDEFGHIJKLMNOPQRSTUVWXYZabcdefghijklmnopqrstuvwxyz0123456789-._~'')"

definition hex_digit :: "nat \<Rightarrow> char" where
  "hex_digit n = ''0123456789ABCDEF'' ! (n mod 16)"

definition encode_char :: "char \<Rightarrow> string" where
  "encode_char c =
     (if unreserved c then [c]
      else [CHR ''%'', hex_digit (of_char c div 16), hex_digit (of_char c)])"

definition percent_encode :: "string \<Rightarrow> string" where
  "percent_encode s = concat (map encode_char s)"

fun join :: "string \<Rightarrow> string list \<Rightarrow> string" where
  "join sep [] = []"
| "join sep [x] = x"
| "join sep (x # y # ys) = x @ sep @ join sep (y # ys)"

definition qs_stringify :: "(string \<times> string option) list \<Rightarrow> string" where
  "qs_stringify obj =
     join ''&'' (concat (map (\<lambda>(name, v). case v of
                                 None \<Rightarrow> []
                               | Some x \<Rightarrow> [percent_encode name @ ''='' @ percent_encode x]) obj))"

text \<open>
  The inverse of the encoding, to state that an encoded value can be read back: \<open>%\<close> and
  two hexadecimal digits stand for one byte.
\<close>

definition hex_value :: "char \<Rightarrow> nat" where
  "hex_value c =
     (let n = of_char c
      in if 48 \<le> n \<and> n \<le> 57 then n - 48 else if 65 \<le> n \<and> n \<le> 70 then n - 55 else 0)"

fun percent_decode :: "string \<Rightarrow> string" where
  "percent_decode (c # h # l # rest) =
     (if c = CHR ''%'' then char_of (hex_value h * 16 + hex_value l) # percent_decode rest
      else c # percent_decode (h # l # rest))"
| "percent_decode s = s"

subsection \<open>The world the client runs in\<close>

text \<open>
  One POST to the token endpoint: the time it takes and what axios gives back, the response
  body or a rejection (\<open>Inl\<close> the HTTP status, \<open>0\<close> when there was no response).
\<close>

record http_reply =
  latency :: nat
  outcome :: "nat + OAuthTokenResponse"

datatype header = HString string | HArray "string list"

record request =
  authorization :: "header option"
  x_api_key :: "header option"
  mcp_session_id :: "header option"
  isInitializeRequest :: bool

datatype sdk_outcome = Handled | SessionInitialized | Throws

text \<open>
  What the program does not decide: its configuration, the provider (a reply for each request
  body, given the bodies posted before), the values \<open>crypto.randomUUID()\<close> returns in order,
  and the MCP SDK (\<open>server.connect\<close> throwing or not; what a transport's \<open>handleRequest\<close>
  does with a request: answer it, answer it and signal that the session is initialised, or
  throw).
\<close>

record env =
  config :: config
  token_endpoint :: "string list \<Rightarrow> string \<Rightarrow> http_reply"
  randomUUID :: "nat \<Rightarrow> string"
  connect_throws :: "nat \<Rightarrow> bool"
  handleRequest :: "nat \<Rightarrow> request \<Rightarrow> sdk_outcome"

text \<open>The entries of \<open>pendingStates\<close>.\<close>

record PendingAuthorization =
  key :: string
  successRedirect :: "string option"

text \<open>
  The process and its surroundings: the file system and the \<open>tokenStore\<close> object,
  \<open>Date.now()\<close>, the bodies posted to the token endpoint so far, the number of UUIDs drawn,
  the two module-level maps, and the number of transports constructed (a transport is
  identified by its construction number).
\<close>

record world =
  fs :: filesystem
  tokenStore :: TokenStore
  clock :: int
  posts :: "string list"
  uuids_drawn :: nat
  pendingStates :: "string \<rightharpoonup> PendingAuthorization"
  transports :: "string \<rightharpoonup> nat"
  constructed :: nat

definition store_get :: "world \<Rightarrow> string \<Rightarrow> error + TokenSet_or_null" where
  "store_get w k = TokenStore_get (fs w) (tokenStore w) k"

definition store_set :: "TokenSet \<Rightarrow> string \<Rightarrow> world \<Rightarrow> (error + unit) \<times> world" where
  "store_set tokenSet k w =
     (case TokenStore_set (fs w) (tokenStore w) tokenSet k of
        (r, fs', st') \<Rightarrow> (r, w\<lparr>fs := fs', tokenStore := st'\<rparr>))"

definition draw_uuid :: "env \<Rightarrow> world \<Rightarrow> string \<times> world" where
  "draw_uuid e w = (randomUUID e (uuids_drawn w), w\<lparr>uuids_drawn := Suc (uuids_drawn w)\<rparr>)"

definition axios_post :: "env \<Rightarrow> string \<Rightarrow> world \<Rightarrow> (nat + OAuthTokenResponse) \<times> world" where
  "axios_post e body w =
     (let reply = token_endpoint e (posts w) body
      in (outcome reply,
          w\<lparr>posts := posts w @ [body], clock := clock w + int (latency reply)\<rparr>))"

subsection \<open>The client's operations\<close>

text \<open>
  \<open>maybeLogOAuthResponse\<close> only writes to the console and is left out. The optional last
  parameter \<open>redirect\<close> of \<open>exchangeCode\<close> and \<open>refreshToken\<close> is passed by no caller (and
  not read by \<open>refreshToken\<close>): both post \<open>redirectUri\<close>. A call that leaves the key out
  passes \<open>''default''\<close>.
\<close>

definition buildAuthorizationUrl ::
  "env \<Rightarrow> AuthorizationUrlParams \<Rightarrow> world \<Rightarrow> (string \<times> string) \<times> world"
where
  "buildAuthorizationUrl e params w =
     (let (st, w') = (case state params of
                        Some s \<Rightarrow> (s, w)
                      | None \<Rightarrow> draw_uuid e w);
          scs = (case scopes params of Some l \<Rightarrow> l | None \<Rightarrow> defaultScopes (config e));
          red = (case redirect params of Some r \<Rightarrow> r | None \<Rightarrow> redirectUri (config e));
          query = qs_stringify
            [(''client_id'', Some (clientId (config e))),
             (''redirect_uri'', Some red),
             (''response_type'', Some ''code''),
             (''scope'', Some (join '' '' scs)),
             (''state'', Some st)]
      in ((authorizeUrl @ ''?'' @ query, st), w'))"

text \<open>
  \<open>normalizeTokenResponse\<close>; \<open>now\<close> is \<open>Date.now()\<close> at the call, \<open>previous\<close> the optional
  second argument. Reading \<open>refreshToken\<close> from a previous value that is not a stored record
  gives \<open>undefined\<close>, and the chain of \<open>??\<close> ends in the empty string.
\<close>

definition previous_refreshToken :: "TokenSet_or_null \<Rightarrow> string option" where
  "previous_refreshToken previous =
     (case previous of Token t \<Rightarrow> Some (refreshToken t) | _ \<Rightarrow> None)"

definition normalizeTokenResponse ::
  "int \<Rightarrow> OAuthTokenResponse \<Rightarrow> TokenSet_or_null \<Rightarrow> TokenSet"
where
  "normalizeTokenResponse now data previous =
     \<lparr>accessToken = access_token data,
      refreshToken = (case refresh_token data of
                        Some r \<Rightarrow> r
                      | None \<Rightarrow> (case previous_refreshToken previous of
                                   Some r \<Rightarrow> r
                                 | None \<Rightarrow> [])),
      expiresAt = now + expires_in data * 1000 - 60000,
      scope = scope_resp data,
      tokenType = token_type data\<rparr>"

definition exchange_body :: "env \<Rightarrow> string \<Rightarrow> string" where
  "exchange_body e code =
     qs_stringify
       [(''grant_type'', Some ''authorization_code''),
        (''code'', Some code),
        (''redirect_uri'', Some (redirectUri (config e))),
        (''client_id'', Some (clientId (config e))),
        (''client_secret'', Some (clientSecret (config e)))]"

text \<open>
  \<open>exchangeCode\<close> calls \<open>normalizeTokenResponse\<close> with one argument: \<open>previous\<close> is
  \<open>undefined\<close>, and \<open>previous?.refreshToken\<close> with it (written \<open>Null\<close> here).
\<close>

definition exchangeCode ::
  "env \<Rightarrow> string \<Rightarrow> string \<Rightarrow> world \<Rightarrow> (error + TokenSet) \<times> world"
where
  "exchangeCode e code k w =
     (case axios_post e (exchange_body e code) w of
        (Inl status, w1) \<Rightarrow> (Inl (AxiosError status), w1)
      | (Inr data, w1) \<Rightarrow>
          (let tokenSet = normalizeTokenResponse (clock w1) data Null
           in case store_set tokenSet k w1 of
                (Inl err, w2) \<Rightarrow> (Inl err, w2)
              | (Inr _, w2) \<Rightarrow> (Inr tokenSet, w2)))"

text \<open>
  In \<open>refreshToken\<close> the fields read from \<open>existing\<close> are \<open>undefined\<close> when \<open>existing\<close> is
  not a stored record.
\<close>

definition refresh_body :: "env \<Rightarrow> TokenSet_or_null \<Rightarrow> string" where
  "refresh_body e existing =
     qs_stringify
       [(''grant_type'', Some ''refresh_token''),
        (''refresh_token'', previous_refreshToken existing),
        (''client_id'', Some (clientId (config e))),
        (''client_secret'', Some (clientSecret (config e))),
        (''redirect_uri'', Some (redirectUri (config e))),
        (''scope'', (case existing of Token t \<Rightarrow> Some (scope t) | _ \<Rightarrow> None))]"

definition WhoopOAuthClient_refreshToken ::
  "env \<Rightarrow> string \<Rightarrow> world \<Rightarrow> (error + TokenSet) \<times> world"
where
  "WhoopOAuthClient_refreshToken e k w =
     (case store_get w k of
        Inl err \<Rightarrow> (Inl err, w)
      | Inr Null \<Rightarrow> (Inl No_stored_WHOOP_refresh_token, w)
      | Inr existing \<Rightarrow>
          (case axios_post e (refresh_body e existing) w of
             (Inl status, w1) \<Rightarrow> (Inl (AxiosError status), w1)
           | (Inr data, w1) \<Rightarrow>
               (let tokenSet = normalizeTokenResponse (clock w1) data existing
                in case store_set tokenSet k w1 of
                     (Inl err, w2) \<Rightarrow> (Inl err, w2)
                   | (Inr _, w2) \<Rightarrow> (Inr tokenSet, w2))))"

section \<open>Authenticated API client (src/whoop/client.ts)\<close>

text \<open>
  \<open>getAccessToken\<close>. The result is a JavaScript value typed \<open>string\<close>; \<open>None\<close> is \<open>undefined\<close>,
  which is what \<open>token.accessToken\<close> gives on a truthy value that is not a stored record
  (there \<open>token.expiresAt <= Date.now()\<close> compares \<open>undefined\<close> and is false).
\<close>

definition getAccessToken :: "env \<Rightarrow> string \<Rightarrow> world \<Rightarrow> (error + string option) \<times> world" where
  "getAccessToken e k w =
     (case store_get w k of
        Inl err \<Rightarrow> (Inl err, w)
      | Inr Null \<Rightarrow> (Inl No_WHOOP_token_available, w)
      | Inr (Inherited _) \<Rightarrow> (Inr None, w)
      | Inr (Token token) \<Rightarrow>
          if expiresAt token \<le> clock w
          then (case WhoopOAuthClient_refreshToken e k w of
                  (Inl err, w') \<Rightarrow> (Inl err, w')
                | (Inr refreshed, w') \<Rightarrow> (Inr (Some (accessToken refreshed)), w'))
          else (Inr (Some (accessToken token)), w))"

section \<open>HTTP server: OAuth routes and the MCP session map\<close>

text \<open>
  What a handler writes to \<open>res\<close>. A message built by \<open>parseHttpError\<close> is kept as the error
  it is built from. \<open>Delegated t\<close>: the response was written by transport \<open>t\<close>. When a
  transport throws after it has sent headers the handler writes nothing more; the model
  does not tell this case from the 500 answer.
\<close>

datatype response =
    Redirect string
  | Send nat string
  | SendFailure nat string error
  | JsonRpcError nat int string
  | JsonRpcFailure nat int error
  | HealthOk bool
  | HealthError error
  | Delegated nat

definition first_value :: "header option \<Rightarrow> string option" where
  \<comment> \<open>\<open>Array.isArray(h) ? h[0] : h\<close>\<close>
  "first_value h =
     (case h of
        None \<Rightarrow> None
      | Some (HString s) \<Rightarrow> Some s
      | Some (HArray []) \<Rightarrow> None
      | Some (HArray (x # xs)) \<Rightarrow> Some x)"

definition falsy :: "string option \<Rightarrow> bool" where
  \<comment> \<open>\<open>!v\<close> for a value that is a string or \<open>undefined\<close>\<close>
  "falsy v = (v = None \<or> v = Some [])"

definition validateApiKey :: "env \<Rightarrow> request \<Rightarrow> bool" where
  "validateApiKey e req =
     (let expected = apiKey (config e)
      in if falsy expected then True
         else
           (let apiKeyHeader = first_value (authorization req);
                alt = first_value (x_api_key req);
                provided = (case apiKeyHeader of
                              Some h \<Rightarrow> if startsWith h ''Bearer ''
                                        then Some (drop (length ''Bearer '') h)
                                        else Some h
                            | None \<Rightarrow> alt)
            in provided = expected))"

definition unauthorized :: response where
  "unauthorized = JsonRpcError 401 (- 32600) ''Unauthorized: missing or invalid API key.''"

text \<open>
  \<open>GET /oauth/whoop/login\<close>. The arguments are \<open>req.query.key\<close> and \<open>req.query.next\<close> when
  they are strings, and the scope list already split from \<open>req.query.scopes\<close>.
\<close>

definition login ::
  "env \<Rightarrow> string option \<Rightarrow> string option \<Rightarrow> string list option \<Rightarrow> world \<Rightarrow> response \<times> world"
where
  "login e qkey qnext qscopes w =
     (let k = (case qkey of Some s \<Rightarrow> s | None \<Rightarrow> ''default'')
      in case buildAuthorizationUrl e \<lparr>state = None, scopes = qscopes, redirect = None\<rparr> w of
           ((url, st), w1) \<Rightarrow>
             (Redirect url,
              w1\<lparr>pendingStates := (pendingStates w1)(st \<mapsto> \<lparr>key = k, successRedirect = qnext\<rparr>)\<rparr>))"

text \<open>
  The redirect handler (\<open>config.whoop.redirectPath\<close>). The arguments are \<open>req.query.code\<close>
  and \<open>req.query.state\<close> when they are strings. The entry is deleted after
  \<open>exchangeCode\<close> has returned, inside the \<open>try\<close>; an empty \<open>successRedirect\<close> is falsy.
\<close>

definition authorization_successful :: response where
  "authorization_successful =
     Send 200 ''WHOOP authorization successful. You can close this window.''"

definition callback :: "env \<Rightarrow> string option \<Rightarrow> string option \<Rightarrow> world \<Rightarrow> response \<times> world" where
  "callback e qcode qstate w =
     (case (qcode, qstate) of
        (Some code, Some st) \<Rightarrow>
          (case pendingStates w st of
             None \<Rightarrow> (Send 400 ''Unknown or expired OAuth state.'', w)
           | Some entry \<Rightarrow>
               (case exchangeCode e code (key entry) w of
                  (Inl err, w1) \<Rightarrow>
                    (SendFailure 500 ''Failed to exchange WHOOP authorization code: '' err, w1)
                | (Inr _, w1) \<Rightarrow>
                    (let w2 = w1\<lparr>pendingStates := (pendingStates w1)(st := None)\<rparr>
                     in case successRedirect entry of
                          None \<Rightarrow> (authorization_successful, w2)
                        | Some url \<Rightarrow>
                            if url = [] then (authorization_successful, w2)
                            else (Redirect url, w2))))
      | _ \<Rightarrow> (Send 400 ''Missing OAuth code or state.'', w))"

definition healthz :: "world \<Rightarrow> response \<times> world" where
  "healthz w =
     (case store_get w ''default'' of
        Inl err \<Rightarrow> (HealthError err, w)
      | Inr token \<Rightarrow> (HealthOk (token \<noteq> Null), w))"

text \<open>
  \<open>transport.handleRequest\<close> on transport \<open>t\<close>. Every transport is constructed with the same
  two options: when the SDK initialises the session it calls \<open>sessionIdGenerator\<close>
  (\<open>randomUUID\<close>) and then \<open>onsessioninitialized\<close>, which puts the transport into the map.
  In the two \<open>/sse\<close> handlers \<open>the sessionId\<close> is read only where \<open>sessionId\<close> is not falsy,
  that is, where it is a non-empty string.
\<close>

definition transport_handleRequest :: "env \<Rightarrow> nat \<Rightarrow> request \<Rightarrow> world \<Rightarrow> (error + unit) \<times> world" where
  "transport_handleRequest e t req w =
     (case handleRequest e t req of
        Handled \<Rightarrow> (Inr (), w)
      | SessionInitialized \<Rightarrow>
          (case draw_uuid e w of
             (newSessionId, w1) \<Rightarrow>
               (Inr (), w1\<lparr>transports := (transports w1)(newSessionId \<mapsto> t)\<rparr>))
      | Throws \<Rightarrow> (Inl SdkError, w))"

definition post_sse :: "env \<Rightarrow> request \<Rightarrow> world \<Rightarrow> response \<times> world" where
  "post_sse e req w =
     (if \<not> validateApiKey e req then (unauthorized, w)
      else
        (let sessionId = first_value (mcp_session_id req)
         in if falsy sessionId \<and> isInitializeRequest req then
              (let transport = constructed w;
                   w1 = w\<lparr>constructed := Suc (constructed w)\<rparr>
               in if connect_throws e transport then (JsonRpcFailure 500 (- 32603) SdkError, w1)
                  else (case transport_handleRequest e transport req w1 of
                          (Inl err, w2) \<Rightarrow> (JsonRpcFailure 500 (- 32603) err, w2)
                        | (Inr _, w2) \<Rightarrow> (Delegated transport, w2)))
            else if falsy sessionId then
              (JsonRpcError 400 (- 32000) ''Missing MCP session ID.'', w)
            else
              (case transports w (the sessionId) of
                 None \<Rightarrow>
                   (JsonRpcError 404 (- 32001) (''Unknown MCP session: '' @ the sessionId), w)
               | Some existing \<Rightarrow>
                   (case transport_handleRequest e existing req w of
                      (Inl err, w2) \<Rightarrow> (JsonRpcFailure 500 (- 32603) err, w2)
                    | (Inr _, w2) \<Rightarrow> (Delegated existing, w2)))))"

definition get_sse :: "env \<Rightarrow> request \<Rightarrow> world \<Rightarrow> response \<times> world" where
  "get_sse e req w =
     (if \<not> validateApiKey e req then (unauthorized, w)
      else
        (let sessionId = first_value (mcp_session_id req)
         in if falsy sessionId then (Send 400 ''Missing MCP session ID.'', w)
            else
              (case transports w (the sessionId) of
                 None \<Rightarrow> (Send 404 (''Unknown MCP session: '' @ the sessionId), w)
               | Some transport \<Rightarrow>
                   (case transport_handleRequest e transport req w of
                      (Inl err, w2) \<Rightarrow> (SendFailure 500 ''Failed to establish SSE stream: '' err, w2)
                    | (Inr _, w2) \<Rightarrow> (Delegated transport, w2)))))"

text \<open>
  Everything that can happen to the server process. The program registers no close
  callback on a transport (neither \<open>onclose\<close> nor any other), so when a transport reports
  closure no code of the program runs.
\<close>

datatype event =
    Login "string option" "string option" "string list option"
  | Callback "string option" "string option"
  | Healthz
  | PostSse request
  | GetSse request
  | TransportClosed nat

fun handle :: "env \<Rightarrow> event \<Rightarrow> world \<Rightarrow> response option \<times> world" where
  "handle e (Login qkey qnext qscopes) w = map_prod Some id (login e qkey qnext qscopes w)"
| "handle e (Callback qcode qstate) w = map_prod Some id (callback e qcode qstate w)"
| "handle e Healthz w = map_prod Some id (healthz w)"
| "handle e (PostSse req) w = map_prod Some id (post_sse e req w)"
| "handle e (GetSse req) w = map_prod Some id (get_sse e req w)"
| "handle e (TransportClosed t) w = (None, w)"

section \<open>Concrete inputs\<close>

text \<open>
  A file system with no token file, where every directory can be created and every file
  written; the store at the default path; a stored record that expired one millisecond
  before the clock of \<open>example_world\<close>.
\<close>

definition example_fs :: filesystem where
  "example_fs =
     \<lparr>files = (\<lambda>p. Inl ENOENT), mkdir_error = (\<lambda>p. None), write_error = (\<lambda>p. None),
      tmpdir = ''/tmp''\<rparr>"

definition example_store :: TokenStore where
  "example_store = \<lparr>absolutePath = ''/app/data/whoop-tokens.json''\<rparr>"

definition example_token :: TokenSet where
  "example_token =
     \<lparr>accessToken = ''A1'', refreshToken = ''R1'', expiresAt = 999,
      scope = ''read:sleep'', tokenType = ''Bearer''\<rparr>"

definition example_config :: config where
  "example_config =
     \<lparr>baseUrl = ''https://mcp.example'', apiKey = None, clientId = ''cid'',
      clientSecret = ''secret'', redirectPath = ''/oauth/whoop/callback'',
      defaultScopes = [''read:sleep'', ''read:cycles'', ''read:profile'']\<rparr>"

text \<open>A refresh response without \<open>refresh_token\<close>, as in the spec's scenario.\<close>

definition example_response :: OAuthTokenResponse where
  "example_response =
     \<lparr>access_token = ''A2'', refresh_token = None, expires_in = 3600,
      scope_resp = ''read:sleep'', token_type = ''Bearer''\<rparr>"

definition example_env :: env where
  "example_env =
     \<lparr>config = example_config,
      token_endpoint = (\<lambda>history body. \<lparr>latency = 250, outcome = Inr example_response\<rparr>),
      randomUUID = (\<lambda>n. ''uuid-'' @ replicate n CHR ''x''),
      connect_throws = (\<lambda>t. False),
      handleRequest = (\<lambda>t req. if isInitializeRequest req then SessionInitialized else Handled)\<rparr>"

text \<open>The same surroundings with a provider that answers every request with status 400.\<close>

definition failing_env :: env where
  "failing_env =
     example_env\<lparr>token_endpoint := (\<lambda>history body. \<lparr>latency = 250, outcome = Inl 400\<rparr>)\<rparr>"

text \<open>The same surroundings with an API key configured.\<close>

definition keyed_env :: env where
  "keyed_env = example_env\<lparr>config := example_config\<lparr>apiKey := Some ''k3y''\<rparr>\<rparr>"

definition example_world :: world where
  "example_world =
     \<lparr>fs = example_fs, tokenStore = example_store, clock = 1000, posts = [],
      uuids_drawn = 0, pendingStates = Map.empty, transports = Map.empty, constructed = 0\<rparr>"

definition stored_world :: world where
  "stored_world =
     example_world\<lparr>fs := example_fs\<lparr>files :=
       (\<lambda>p. if p = ''/app/data/whoop-tokens.json''
            then Inr [''default'' \<mapsto> example_token] else Inl ENOENT)\<rparr>\<rparr>"

definition plain_request :: request where
  "plain_request =
     \<lparr>authorization = None, x_api_key = None, mcp_session_id = None,
      isInitializeRequest = False\<rparr>"

text \<open>A caller of \<open>buildAuthorizationUrl\<close> that passes its own \<open>state\<close>.\<close>

definition fixed_state_params :: AuthorizationUrlParams where
  "fixed_state_params = \<lparr>state = Some ''s'', scopes = None, redirect = None\<rparr>"


text \<open>
  The world after an initialization request without session id: one session, the first
  UUID, on transport 0; and a later request that bears this session id.
\<close>

definition init_request :: request where
  "init_request = plain_request\<lparr>isInitializeRequest := True\<rparr>"

definition session_world :: world where
  "session_world = snd (post_sse example_env init_request example_world)"

definition session_request :: request where
  "session_request = plain_request\<lparr>mcp_session_id := Some (HString ''uuid-'')\<rparr>"

text \<open>A request with a session id that is in no map, and one that presents the API key.\<close>

definition unknown_session_request :: request where
  "unknown_session_request = plain_request\<lparr>mcp_session_id := Some (HString ''nope'')\<rparr>"

definition bearer_request :: request where
  "bearer_request = plain_request\<lparr>authorization := Some (HString ''Bearer k3y'')\<rparr>"

section \<open>Invariant of the session map\<close>

text \<open>Every transport in the map has been constructed.\<close>

definition transports_constructed :: "world \<Rightarrow> bool" where
  "transports_constructed w = (\<forall>sid t. transports w sid = Some t \<longrightarrow> t < constructed w)"

text \<open>Every session id in the map is one of the UUIDs drawn so far.\<close>

definition session_ids_drawn :: "env \<Rightarrow> world \<Rightarrow> bool" where
  "session_ids_drawn e w =
     (\<forall>sid. transports w sid \<noteq> None \<longrightarrow> (\<exists>n < uuids_drawn w. sid = randomUUID e n))"

text \<open>The world after a sequence of events, handled one after the other.\<close>

fun run :: "env \<Rightarrow> event list \<Rightarrow> world \<Rightarrow> world" where
  "run e [] w = w"
| "run e (ev # evs) w = run e evs (snd (handle e ev w))"

section \<open>Properties of the credential store\<close>

text \<open>
  A successful write leaves the document readable at the path the store then holds, also
  after the move to the fallback directory.
\<close>

lemma writeFile_then_readFile:
  "writeFile fsys st contents = (Inr u, fsys', st') \<Longrightarrow> readFile fsys' st' = Inr contents"
  by (auto simp: writeFile_def readFile_def split: prod.splits sum.splits option.splits)

text \<open>
  Round trip and last write wins, for every key but \<open>__proto__\<close>, and for \<open>__proto__\<close> too
  when the document already has an own property of that name.
\<close>

lemma set_then_get_contents:
  assumes "TokenStore_set fsys st r k = (Inr u, fsys', st')"
  shows "\<exists>contents. readFile fsys st = Inr contents
           \<and> TokenStore_get fsys' st' k = Inr (property_get (property_set contents k r) k)"
  using assms
  by (auto simp: TokenStore_set_def TokenStore_get_def dest: writeFile_then_readFile
           split: sum.splits)

lemma set_then_get:
  assumes "TokenStore_set fsys st r k = (Inr u, fsys', st')" and "k \<noteq> ''__proto__''"
  shows "TokenStore_get fsys' st' k = Inr (Token r)"
  using set_then_get_contents [OF assms(1)] assms(2)
  by (auto simp: property_get_def property_set_def)

lemma set_last_write_wins:
  assumes "TokenStore_set fsys st r1 k = (Inr u1, fsys1, st1)"
      and "TokenStore_set fsys1 st1 r2 k = (Inr u2, fsys2, st2)"
      and "k \<noteq> ''__proto__''"
  shows "TokenStore_get fsys2 st2 k = Inr (Token r2)"
  using set_then_get [OF assms(2) assms(3)] .

lemma set_keeps_other_keys:
  assumes "TokenStore_set fsys st r k = (Inr u, fsys', st')" and "k' \<noteq> k"
  shows "TokenStore_get fsys' st' k' = TokenStore_get fsys st k'"
  using assms
  by (auto simp: TokenStore_set_def TokenStore_get_def property_get_def property_set_def
           dest!: writeFile_then_readFile split: sum.splits)

lemma set_over_stored_record:
  assumes "TokenStore_get fsys st k = Inr (Token prev)"
      and "TokenStore_set fsys st r k = (Inr u, fsys', st')"
  shows "TokenStore_get fsys' st' k = Inr (Token r)"
  using assms
  by (auto simp: TokenStore_set_def TokenStore_get_def property_get_def property_set_def
           dest!: writeFile_then_readFile split: sum.splits option.splits if_splits)

lemma clear_then_get_any_key:
  assumes "TokenStore_clear fsys st k = (Inr u, fsys', st')"
  shows "TokenStore_get fsys' st' k =
           Inr (if k \<in> set Object_prototype then Inherited k else Null)"
  using assms
  by (auto simp: TokenStore_clear_def TokenStore_get_def property_get_def property_delete_def
           dest!: writeFile_then_readFile split: sum.splits)

lemma clear_then_get:
  assumes "TokenStore_clear fsys st k = (Inr u, fsys', st')" and "k \<notin> set Object_prototype"
  shows "TokenStore_get fsys' st' k = Inr Null"
  using clear_then_get_any_key [OF assms(1)] assms(2) by simp

lemma clear_absent_key:
  assumes "readFile fsys st = Inr contents" and "contents k = None"
  shows "TokenStore_clear fsys st k = writeFile fsys st contents"
proof -
  have "contents(k := None) = contents"
    using assms(2) by (simp add: fun_upd_idem)
  then show ?thesis
    using assms(1) by (simp add: TokenStore_clear_def property_delete_def)
qed

lemma clear_absent_key_mapping:
  assumes "readFile fsys st = Inr contents" and "contents k = None"
      and "TokenStore_clear fsys st k = (Inr u, fsys', st')"
  shows "readFile fsys' st' = Inr contents"
  using assms by (auto simp: clear_absent_key dest: writeFile_then_readFile)

lemma clear_errors_are_io:
  assumes "TokenStore_clear fsys st k = (Inl err, fsys', st')"
  shows "\<exists>code. err = ErrnoException code"
  using assms
  by (auto simp: TokenStore_clear_def writeFile_def readFile_def ensureDir_def Let_def
           split: sum.splits option.splits if_splits prod.splits)

lemma get_absent_key:
  assumes "readFile fsys st = Inr contents" and "contents k = None"
      and "k \<notin> set Object_prototype"
  shows "TokenStore_get fsys st k = Inr Null"
  using assms by (simp add: TokenStore_get_def property_get_def)


lemmas store_eval =
  TokenStore_set_def TokenStore_get_def TokenStore_clear_def readFile_def writeFile_def
  ensureDir_def property_set_def property_get_def property_delete_def Object_prototype_def
  example_fs_def example_store_def


text \<open>
  C7 (round trip: \<open>set(k, r)\<close> followed by \<open>get(k)\<close> returns \<open>r\<close>, for every key \<open>k\<close>).
  The file store at the key \<open>__proto__\<close>, on a store with no token file: \<open>set\<close> completes
  without error, and the \<open>get\<close> that follows returns the inherited \<open>Object.prototype\<close>, not
  the record written. (\<open>set_then_get\<close> is the round trip for every other key.)
\<close>

theorem set_under_proto_key_is_lost:
  "(case TokenStore_set example_fs example_store example_token ''__proto__'' of
      (r, fsys', st') \<Rightarrow> (r, TokenStore_get fsys' st' ''__proto__''))
   = (Inr (), Inr (Inherited ''__proto__''))"
  by (simp add: store_eval)


text \<open>
  C8 (\<open>clear(k)\<close> followed by \<open>get(k)\<close> returns absent, for every key \<open>k\<close>). The file store
  at the key \<open>constructor\<close>, on a store with no token file: \<open>clear\<close> completes without error,
  and the \<open>get\<close> that follows returns the inherited member of \<open>Object.prototype\<close>, not
  \<open>null\<close>. (\<open>clear_then_get\<close> is the claim for every key that is not a property of
  \<open>Object.prototype\<close>; \<open>clear_absent_key_mapping\<close> is the no-op on an absent key.)
\<close>

theorem clear_then_get_inherited_key:
  "(case TokenStore_clear example_fs example_store ''constructor'' of
      (r, fsys', st') \<Rightarrow> (r, TokenStore_get fsys' st' ''constructor''))
   = (Inr (), Inr (Inherited ''constructor''))"
  by (simp add: store_eval)


section \<open>Properties of the OAuth exchange client\<close>

text \<open>
  What the world-level store calls and the POST leave unchanged, and what a successful
  exchange or refresh has done.
\<close>

lemma store_set_frame:
  assumes "store_set t k w = (r, w')"
  shows "clock w' = clock w" and "posts w' = posts w" and "uuids_drawn w' = uuids_drawn w"
    and "pendingStates w' = pendingStates w" and "transports w' = transports w"
    and "constructed w' = constructed w"
  using assms by (auto simp: store_set_def split: prod.splits)

lemma store_set_then_get:
  assumes "store_set t k w = (Inr u, w')" and "k \<noteq> ''__proto__''"
  shows "store_get w' k = Inr (Token t)"
  using assms by (auto simp: store_set_def store_get_def split: prod.splits dest: set_then_get)

lemma store_set_over_stored_record:
  assumes "store_get w k = Inr (Token prev)" and "store_set t k w = (Inr u, w')"
  shows "store_get w' k = Inr (Token t)"
  using assms
  by (auto simp: store_set_def store_get_def split: prod.splits dest: set_over_stored_record)

lemma store_get_after_post:
  "axios_post e body w = (r, w1) \<Longrightarrow> store_get w1 k = store_get w k"
  by (auto simp: axios_post_def store_get_def Let_def)

lemma axios_post_effect:
  "axios_post e body w = (r, w1) \<Longrightarrow>
     r = outcome (token_endpoint e (posts w) body)
     \<and> posts w1 = posts w @ [body]
     \<and> clock w1 = clock w + int (latency (token_endpoint e (posts w) body))
     \<and> pendingStates w1 = pendingStates w \<and> transports w1 = transports w
     \<and> constructed w1 = constructed w \<and> uuids_drawn w1 = uuids_drawn w"
  by (auto simp: axios_post_def Let_def)

lemma normalizeTokenResponse_expiresAt:
  "expiresAt (normalizeTokenResponse now data previous) = now + expires_in data * 1000 - 60000"
  by (simp add: normalizeTokenResponse_def)

lemma exchangeCode_result:
  assumes "exchangeCode e code k w = (Inr t, w')"
  shows "\<exists>data. outcome (token_endpoint e (posts w) (exchange_body e code)) = Inr data
           \<and> t = normalizeTokenResponse
                   (clock w + int (latency (token_endpoint e (posts w) (exchange_body e code))))
                   data Null
           \<and> posts w' = posts w @ [exchange_body e code]
           \<and> clock w' = clock w + int (latency (token_endpoint e (posts w) (exchange_body e code)))
           \<and> pendingStates w' = pendingStates w \<and> transports w' = transports w
           \<and> (k \<noteq> ''__proto__'' \<longrightarrow> store_get w' k = Inr (Token t))"
proof -
  obtain r w1 where p: "axios_post e (exchange_body e code) w = (r, w1)"
    by (cases "axios_post e (exchange_body e code) w")
  note eff = axios_post_effect [OF p]
  from assms p obtain data where r: "r = Inr data"
    by (cases r) (auto simp: exchangeCode_def)
  from assms p r obtain u where
    s: "store_set (normalizeTokenResponse (clock w1) data Null) k w1 = (Inr u, w')"
    and t: "t = normalizeTokenResponse (clock w1) data Null"
    by (auto simp: exchangeCode_def Let_def split: prod.splits sum.splits)
  have "outcome (token_endpoint e (posts w) (exchange_body e code)) = Inr data"
    using eff r by simp
  moreover have "k \<noteq> ''__proto__'' \<longrightarrow> store_get w' k = Inr (Token t)"
    using store_set_then_get [OF s] t by simp
  ultimately show ?thesis
    using eff t store_set_frame [OF s] by simp
qed

lemma refreshToken_result:
  assumes "WhoopOAuthClient_refreshToken e k w = (Inr t, w')"
  shows "\<exists>existing data. store_get w k = Inr existing \<and> existing \<noteq> Null
           \<and> outcome (token_endpoint e (posts w) (refresh_body e existing)) = Inr data
           \<and> t = normalizeTokenResponse
                   (clock w + int (latency (token_endpoint e (posts w) (refresh_body e existing))))
                   data existing
           \<and> posts w' = posts w @ [refresh_body e existing]
           \<and> clock w' = clock w + int (latency (token_endpoint e (posts w) (refresh_body e existing)))
           \<and> (k \<noteq> ''__proto__'' \<longrightarrow> store_get w' k = Inr (Token t))"
proof -
  from assms obtain existing where g: "store_get w k = Inr existing" and nn: "existing \<noteq> Null"
    by (cases "store_get w k"; cases "projr (store_get w k)")
       (auto simp: WhoopOAuthClient_refreshToken_def split: TokenSet_or_null.splits)
  obtain r w1 where p: "axios_post e (refresh_body e existing) w = (r, w1)"
    by (cases "axios_post e (refresh_body e existing) w")
  note eff = axios_post_effect [OF p]
  from assms g nn p obtain data where r: "r = Inr data"
    by (cases r; cases existing) (auto simp: WhoopOAuthClient_refreshToken_def)
  from assms g nn p r obtain u where
    s: "store_set (normalizeTokenResponse (clock w1) data existing) k w1 = (Inr u, w')"
    and t: "t = normalizeTokenResponse (clock w1) data existing"
    by (cases existing)
       (auto simp: WhoopOAuthClient_refreshToken_def Let_def split: prod.splits sum.splits)
  have "outcome (token_endpoint e (posts w) (refresh_body e existing)) = Inr data"
    using eff r by simp
  moreover have "k \<noteq> ''__proto__'' \<longrightarrow> store_get w' k = Inr (Token t)"
    using store_set_then_get [OF s] t by simp
  ultimately show ?thesis
    using g nn eff t store_set_frame [OF s] by simp
qed

lemma refreshToken_posts_once:
  assumes "store_get w k = Inr existing" and "existing \<noteq> Null"
  shows "posts (snd (WhoopOAuthClient_refreshToken e k w)) = posts w @ [refresh_body e existing]"
proof -
  obtain r w1 where p: "axios_post e (refresh_body e existing) w = (r, w1)"
    by (cases "axios_post e (refresh_body e existing) w")
  have w1: "posts w1 = posts w @ [refresh_body e existing]"
    using axios_post_effect [OF p] by simp
  show ?thesis
  proof (cases r)
    case (Inl status)
    with p have "axios_post e (refresh_body e existing) w = (Inl status, w1)" by simp
    with assms w1 show ?thesis
      by (cases existing) (simp_all add: WhoopOAuthClient_refreshToken_def)
  next
    case (Inr data)
    with p have p': "axios_post e (refresh_body e existing) w = (Inr data, w1)" by simp
    obtain r2 w2 where
      s: "store_set (normalizeTokenResponse (clock w1) data existing) k w1 = (r2, w2)"
      by (cases "store_set (normalizeTokenResponse (clock w1) data existing) k w1")
    from store_set_frame(2) [OF s] w1 have "posts w2 = posts w @ [refresh_body e existing]"
      by simp
    with assms p' s show ?thesis
      by (cases existing; cases r2) (simp_all add: WhoopOAuthClient_refreshToken_def Let_def)
  qed
qed

lemmas world_eval =
  store_get_def store_set_def axios_post_def draw_uuid_def normalizeTokenResponse_def
  previous_refreshToken_def example_env_def example_config_def example_response_def
  example_world_def stored_world_def example_token_def failing_env_def keyed_env_def Let_def

lemmas qs_eval =
  qs_stringify_def percent_encode_def encode_char_def unreserved_def hex_digit_def
  redirectUri_def

lemma example_exchange:
  "fst (exchangeCode example_env ''abc'' ''default'' example_world) =
     Inr \<lparr>accessToken = ''A2'', refreshToken = [], expiresAt = 3541250,
          scope = ''read:sleep'', tokenType = ''Bearer''\<rparr>"
  by (simp add: exchangeCode_def world_eval store_eval)

lemma example_refresh:
  "fst (WhoopOAuthClient_refreshToken example_env ''default'' stored_world) =
     Inr \<lparr>accessToken = ''A2'', refreshToken = ''R1'', expiresAt = 3541250,
          scope = ''read:sleep'', tokenType = ''Bearer''\<rparr>"
  by (simp add: WhoopOAuthClient_refreshToken_def world_eval store_eval)

text \<open>
  C2. The record that normalization builds has
  \<open>expiresAt = now + expires_in * 1000 - 60000\<close>, with \<open>now\<close> the clock when the response is
  normalized; so has the record a successful \<open>exchangeCode\<close> or \<open>refreshToken\<close> hands to the
  store and returns, where that clock is the clock at the call plus the time the POST took;
  and that record is the one the store holds for the key afterwards (for the key
  \<open>__proto__\<close> see C7).
\<close>

theorem expiresAt_is_lifetime_minus_buffer:
  "expiresAt (normalizeTokenResponse now data previous) = now + expires_in data * 1000 - 60000
   \<and> (\<forall>t w'. exchangeCode e code k w = (Inr t, w') \<longrightarrow>
         (\<exists>data'. outcome (token_endpoint e (posts w) (exchange_body e code)) = Inr data'
            \<and> clock w' = clock w + int (latency (token_endpoint e (posts w) (exchange_body e code)))
            \<and> expiresAt t = clock w' + expires_in data' * 1000 - 60000
            \<and> (k \<noteq> ''__proto__'' \<longrightarrow> store_get w' k = Inr (Token t))))
   \<and> (\<forall>t w'. WhoopOAuthClient_refreshToken e k w = (Inr t, w') \<longrightarrow>
         (\<exists>existing data'. store_get w k = Inr existing
            \<and> outcome (token_endpoint e (posts w) (refresh_body e existing)) = Inr data'
            \<and> clock w' = clock w + int (latency (token_endpoint e (posts w) (refresh_body e existing)))
            \<and> expiresAt t = clock w' + expires_in data' * 1000 - 60000
            \<and> (k \<noteq> ''__proto__'' \<longrightarrow> store_get w' k = Inr (Token t))))"
proof (intro conjI allI impI)
  show "expiresAt (normalizeTokenResponse now data previous) = now + expires_in data * 1000 - 60000"
    by (rule normalizeTokenResponse_expiresAt)
next
  fix t w' assume "exchangeCode e code k w = (Inr t, w')"
  from exchangeCode_result [OF this] obtain data' where
    "outcome (token_endpoint e (posts w) (exchange_body e code)) = Inr data'"
    "t = normalizeTokenResponse
           (clock w + int (latency (token_endpoint e (posts w) (exchange_body e code)))) data' Null"
    "clock w' = clock w + int (latency (token_endpoint e (posts w) (exchange_body e code)))"
    "k \<noteq> ''__proto__'' \<longrightarrow> store_get w' k = Inr (Token t)"
    by blast
  then show "\<exists>data'. outcome (token_endpoint e (posts w) (exchange_body e code)) = Inr data'
            \<and> clock w' = clock w + int (latency (token_endpoint e (posts w) (exchange_body e code)))
            \<and> expiresAt t = clock w' + expires_in data' * 1000 - 60000
            \<and> (k \<noteq> ''__proto__'' \<longrightarrow> store_get w' k = Inr (Token t))"
    by (simp add: normalizeTokenResponse_expiresAt)
next
  fix t w' assume "WhoopOAuthClient_refreshToken e k w = (Inr t, w')"
  from refreshToken_result [OF this] obtain existing data' where
    "store_get w k = Inr existing"
    "outcome (token_endpoint e (posts w) (refresh_body e existing)) = Inr data'"
    "t = normalizeTokenResponse
           (clock w + int (latency (token_endpoint e (posts w) (refresh_body e existing))))
           data' existing"
    "clock w' = clock w + int (latency (token_endpoint e (posts w) (refresh_body e existing)))"
    "k \<noteq> ''__proto__'' \<longrightarrow> store_get w' k = Inr (Token t)"
    by blast
  then show "\<exists>existing data'. store_get w k = Inr existing
            \<and> outcome (token_endpoint e (posts w) (refresh_body e existing)) = Inr data'
            \<and> clock w' = clock w + int (latency (token_endpoint e (posts w) (refresh_body e existing)))
            \<and> expiresAt t = clock w' + expires_in data' * 1000 - 60000
            \<and> (k \<noteq> ''__proto__'' \<longrightarrow> store_get w' k = Inr (Token t))"
    by (simp add: normalizeTokenResponse_expiresAt)
qed

text \<open>
  The hypotheses of C2 hold at a code exchange on the empty store and at a refresh of the
  stored example record: clock 1000, a POST of 250 ms, \<open>expires_in = 3600\<close>.
\<close>

theorem expiresAt_is_lifetime_minus_buffer_witness:
  "(\<exists>t w'. exchangeCode example_env ''abc'' ''default'' example_world = (Inr t, w')
       \<and> expiresAt t = (1000 + 250) + 3600 * 1000 - 60000
       \<and> store_get w' ''default'' = Inr (Token t))
   \<and> (\<exists>t w'. WhoopOAuthClient_refreshToken example_env ''default'' stored_world = (Inr t, w')
       \<and> expiresAt t = (1000 + 250) + 3600 * 1000 - 60000
       \<and> store_get w' ''default'' = Inr (Token t))"
proof -
  note main = expiresAt_is_lifetime_minus_buffer
  obtain t1 w1 where x: "exchangeCode example_env ''abc'' ''default'' example_world = (Inr t1, w1)"
    using example_exchange by (cases "exchangeCode example_env ''abc'' ''default'' example_world") auto
  from main [of _ _ _ example_env "''abc''" "''default''" example_world] x
  have "expiresAt t1 = (1000 + 250) + 3600 * 1000 - 60000
        \<and> store_get w1 ''default'' = Inr (Token t1)"
    by (auto simp: example_env_def example_response_def example_world_def)
  with x have a: "\<exists>t w'. exchangeCode example_env ''abc'' ''default'' example_world = (Inr t, w')
       \<and> expiresAt t = (1000 + 250) + 3600 * 1000 - 60000
       \<and> store_get w' ''default'' = Inr (Token t)"
    by blast
  obtain t2 w2 where r: "WhoopOAuthClient_refreshToken example_env ''default'' stored_world = (Inr t2, w2)"
    using example_refresh
    by (cases "WhoopOAuthClient_refreshToken example_env ''default'' stored_world") auto
  from main [of _ _ _ example_env _ "''default''" stored_world] r
  have "expiresAt t2 = (1000 + 250) + 3600 * 1000 - 60000
        \<and> store_get w2 ''default'' = Inr (Token t2)"
    by (auto simp: example_env_def example_response_def example_world_def stored_world_def)
  with r have b: "\<exists>t w'. WhoopOAuthClient_refreshToken example_env ''default'' stored_world = (Inr t, w')
       \<and> expiresAt t = (1000 + 250) + 3600 * 1000 - 60000
       \<and> store_get w' ''default'' = Inr (Token t)"
    by blast
  from a b show ?thesis by (rule conjI)
qed

text \<open>
  C3. A refresh for a key with a stored record, answered without \<open>refresh_token\<close>, returns
  and commits a record whose \<open>refreshToken\<close> is the stored one (for every key, \<open>__proto__\<close>
  included: the stored record is an own property there); the other fields come from the
  response, \<open>expiresAt\<close> by the normalization rule.
\<close>

theorem refresh_keeps_previous_refresh_token:
  assumes "store_get w k = Inr (Token prev)"
      and "outcome (token_endpoint e (posts w) (refresh_body e (Token prev))) = Inr data"
      and "refresh_token data = None"
      and "WhoopOAuthClient_refreshToken e k w = (Inr t, w')"
  shows "t = \<lparr>accessToken = access_token data, refreshToken = refreshToken prev,
              expiresAt = clock w' + expires_in data * 1000 - 60000,
              scope = scope_resp data, tokenType = token_type data\<rparr>
         \<and> store_get w' k = Inr (Token t)"
proof -
  obtain r w1 where p: "axios_post e (refresh_body e (Token prev)) w = (r, w1)"
    by (cases "axios_post e (refresh_body e (Token prev)) w")
  note eff = axios_post_effect [OF p]
  have r: "r = Inr data" using eff assms(2) by simp
  from assms(1,4) p r obtain u where
    s: "store_set (normalizeTokenResponse (clock w1) data (Token prev)) k w1 = (Inr u, w')"
    and t: "t = normalizeTokenResponse (clock w1) data (Token prev)"
    by (auto simp: WhoopOAuthClient_refreshToken_def Let_def split: prod.splits sum.splits)
  have g1: "store_get w1 k = Inr (Token prev)"
    using store_get_after_post [OF p] assms(1) by simp
  have "store_get w' k = Inr (Token t)"
    using store_set_over_stored_record [OF g1 s] t by simp
  moreover have "clock w' = clock w1"
    using store_set_frame(1) [OF s] .
  ultimately show ?thesis
    using t assms(3)
    by (simp add: normalizeTokenResponse_def previous_refreshToken_def)
qed

text \<open>
  The spec's scenario: stored refresh token \<open>R1\<close>, a record expired at clock 1000, a
  response with \<open>access_token = A2\<close>, \<open>expires_in = 3600\<close> and no \<open>refresh_token\<close>,
  received 250 ms later.
\<close>

theorem refresh_keeps_previous_refresh_token_witness:
  "\<exists>t w'. WhoopOAuthClient_refreshToken example_env ''default'' stored_world = (Inr t, w')
     \<and> t = \<lparr>accessToken = ''A2'', refreshToken = ''R1'', expiresAt = 1000 + 250 + 3540000,
              scope = ''read:sleep'', tokenType = ''Bearer''\<rparr>
     \<and> store_get w' ''default'' = Inr (Token t)"
proof -
  obtain t w' where r: "WhoopOAuthClient_refreshToken example_env ''default'' stored_world = (Inr t, w')"
    using example_refresh
    by (cases "WhoopOAuthClient_refreshToken example_env ''default'' stored_world") auto
  have g: "store_get stored_world ''default'' = Inr (Token example_token)"
    by (simp add: world_eval store_eval)
  have o: "outcome (token_endpoint example_env (posts stored_world)
             (refresh_body example_env (Token example_token))) = Inr example_response"
    by (simp add: example_env_def)
  have n: "refresh_token example_response = None"
    by (simp add: example_response_def)
  have c: "clock w' = 1250"
    using refreshToken_result [OF r] by (auto simp: world_eval)
  from refresh_keeps_previous_refresh_token [OF g o n r] c
  have "t = \<lparr>accessToken = ''A2'', refreshToken = ''R1'', expiresAt = 1000 + 250 + 3540000,
              scope = ''read:sleep'', tokenType = ''Bearer''\<rparr>
        \<and> store_get w' ''default'' = Inr (Token t)"
    by (simp add: example_response_def example_token_def)
  with r show ?thesis by blast
qed

text \<open>
  A code exchange answered without \<open>refresh_token\<close>: the record has the empty refresh token;
  for every key but \<open>__proto__\<close> it is the stored record afterwards, and the next refresh
  posts \<open>refresh_token=\<close> with an empty value.
\<close>

lemma exchangeCode_without_refresh_token:
  assumes "outcome (token_endpoint e (posts w) (exchange_body e code)) = Inr data"
      and "refresh_token data = None"
      and "exchangeCode e code k w = (Inr t, w')"
  shows "refreshToken t = []"
    and "k \<noteq> ''__proto__'' \<Longrightarrow> store_get w' k = Inr (Token t)"
    and "k \<noteq> ''__proto__'' \<Longrightarrow>
           posts (snd (WhoopOAuthClient_refreshToken e k w')) = posts w' @ [refresh_body e (Token t)]"
    and "refresh_body e (Token t) =
           qs_stringify
             [(''grant_type'', Some ''refresh_token''),
              (''refresh_token'', Some []),
              (''client_id'', Some (clientId (config e))),
              (''client_secret'', Some (clientSecret (config e))),
              (''redirect_uri'', Some (redirectUri (config e))),
              (''scope'', Some (scope_resp data))]"
proof -
  obtain r w1 where p: "axios_post e (exchange_body e code) w = (r, w1)"
    by (cases "axios_post e (exchange_body e code) w")
  note eff = axios_post_effect [OF p]
  have r: "r = Inr data" using eff assms(1) by simp
  from assms(3) p r obtain u where
    s: "store_set (normalizeTokenResponse (clock w1) data Null) k w1 = (Inr u, w')"
    and t: "t = normalizeTokenResponse (clock w1) data Null"
    by (auto simp: exchangeCode_def Let_def split: prod.splits sum.splits)
  show rt: "refreshToken t = []"
    using t assms(2) by (simp add: normalizeTokenResponse_def previous_refreshToken_def)
  show g: "store_get w' k = Inr (Token t)" if "k \<noteq> ''__proto__''"
    using store_set_then_get [OF s that] t by simp
  show "posts (snd (WhoopOAuthClient_refreshToken e k w')) = posts w' @ [refresh_body e (Token t)]"
    if "k \<noteq> ''__proto__''"
    using refreshToken_posts_once [OF g [OF that]] by simp
  show "refresh_body e (Token t) =
           qs_stringify
             [(''grant_type'', Some ''refresh_token''),
              (''refresh_token'', Some []),
              (''client_id'', Some (clientId (config e))),
              (''client_secret'', Some (clientSecret (config e))),
              (''redirect_uri'', Some (redirectUri (config e))),
              (''scope'', Some (scope_resp data))]"
    using rt t by (simp add: refresh_body_def previous_refreshToken_def normalizeTokenResponse_def)
qed

text \<open>
  C10 (a code exchange answered without \<open>refresh_token\<close> commits a record with the empty
  refresh token, so that the next refresh for the key sends an empty \<open>refresh_token\<close>).
  At the key \<open>__proto__\<close>, on a store with no token file: the exchange returns the record
  with the empty refresh token, the store does not keep it, and the refresh that follows
  reads \<open>Object.prototype\<close> as the existing record and posts a body with no
  \<open>refresh_token\<close> field and no \<open>scope\<close> field. (\<open>exchangeCode_without_refresh_token\<close> is
  the claim for every other key.)
\<close>

theorem exchange_under_proto_key_then_refresh:
  "(case exchangeCode example_env ''abc'' ''__proto__'' example_world of
      (r, w1) \<Rightarrow>
        (r, store_get w1 ''__proto__'',
         last (posts (snd (WhoopOAuthClient_refreshToken example_env ''__proto__'' w1)))))
   = (Inr \<lparr>accessToken = ''A2'', refreshToken = [], expiresAt = 3541250,
           scope = ''read:sleep'', tokenType = ''Bearer''\<rparr>,
      Inr (Inherited ''__proto__''),
      ''grant_type=refresh_token&client_id=cid&client_secret=secret&redirect_uri=https%3A%2F%2Fmcp.example%2Foauth%2Fwhoop%2Fcallback'')"
  by (simp add: exchangeCode_def WhoopOAuthClient_refreshToken_def refresh_body_def
        world_eval store_eval qs_eval)

text \<open>The encoding loses nothing: decoding an encoded string gives the string back.\<close>

lemma hex_values:
  "map hex_value ''0123456789ABCDEF'' = [0, 1, 2, 3, 4, 5, 6, 7, 8, 9, 10, 11, 12, 13, 14, 15]"
  by (simp add: hex_value_def)

lemma sixteen: "[0, 1, 2, 3, 4, 5, 6, 7, 8, 9, 10, 11, 12, 13, 14, 15] = [0..<16]"
  by (simp add: upt_conv_Cons)

lemma hex_value_hex_digit: "hex_value (hex_digit n) = n mod 16"
proof -
  have "hex_value (''0123456789ABCDEF'' ! (n mod 16)) = map hex_value ''0123456789ABCDEF'' ! (n mod 16)"
    by (rule nth_map [symmetric]) simp
  also have "\<dots> = [0..<16] ! (n mod 16)"
    by (simp only: hex_values sixteen)
  also have "\<dots> = n mod 16"
    by simp
  finally show ?thesis
    by (simp only: hex_digit_def)
qed

lemma percent_decode_plain:
  "c \<noteq> CHR ''%'' \<Longrightarrow> percent_decode (c # s) = c # percent_decode s"
proof (cases s)
  case Nil
  then show ?thesis by simp
next
  case (Cons h t)
  assume "c \<noteq> CHR ''%''"
  with Cons show ?thesis by (cases t) simp_all
qed

lemma unreserved_not_percent: "unreserved c \<Longrightarrow> c \<noteq> CHR ''%''"
  by (auto simp: unreserved_def)

lemma byte_from_nibbles: "x div 16 mod 16 * 16 + x mod 16 = x" if "x < 256" for x :: nat
proof -
  have "x div 16 < 16" using that by simp
  then have "x div 16 mod 16 = x div 16" by simp
  then show ?thesis by simp
qed

lemma decode_encoded_char:
  "char_of (hex_value (hex_digit (of_char c div 16)) * 16 + hex_value (hex_digit (of_char c))) = c"
proof -
  have "hex_value (hex_digit (of_char c div 16)) * 16 + hex_value (hex_digit (of_char c))
          = (of_char c :: nat)"
    unfolding hex_value_hex_digit by (rule byte_from_nibbles) simp
  then show ?thesis
    by (simp only: char_of_char)
qed

lemma percent_decode_encode: "percent_decode (percent_encode s) = s"
proof (induction s)
  case Nil
  show ?case by (simp add: percent_encode_def)
next
  case (Cons c s)
  have e: "percent_encode (c # s) = encode_char c @ percent_encode s"
    by (simp add: percent_encode_def)
  show ?case
  proof (cases "unreserved c")
    case True
    then have "percent_decode (percent_encode (c # s)) = c # percent_decode (percent_encode s)"
      unfolding e encode_char_def by (simp add: percent_decode_plain unreserved_not_percent)
    with Cons show ?thesis by simp
  next
    case False
    then have "percent_encode (c # s) =
                 CHR ''%'' # hex_digit (of_char c div 16) # hex_digit (of_char c) # percent_encode s"
      unfolding e encode_char_def by simp
    then have "percent_decode (percent_encode (c # s)) =
                 char_of (hex_value (hex_digit (of_char c div 16)) * 16
                          + hex_value (hex_digit (of_char c))) # percent_decode (percent_encode s)"
      by (simp only: percent_decode.simps refl if_True)
    with Cons show ?thesis
      by (simp only: decode_encoded_char)
  qed
qed

text \<open>
  \<open>buildAuthorizationUrl\<close>: the state it returns, the only change it makes to the world
  (one UUID drawn, when the caller passed no state), and the URL, whose five field names
  are not changed by the encoding.
\<close>

lemma buildAuthorizationUrl_state:
  "snd (fst (buildAuthorizationUrl e params w)) =
     (case state params of Some s \<Rightarrow> s | None \<Rightarrow> randomUUID e (uuids_drawn w))"
  by (simp add: buildAuthorizationUrl_def draw_uuid_def Let_def split: option.splits)

lemma buildAuthorizationUrl_world:
  "snd (buildAuthorizationUrl e params w) =
     (case state params of Some s \<Rightarrow> w | None \<Rightarrow> w\<lparr>uuids_drawn := Suc (uuids_drawn w)\<rparr>)"
  by (simp add: buildAuthorizationUrl_def draw_uuid_def Let_def split: option.splits)

lemma qs_names:
  "percent_encode ''client_id'' = ''client_id''"
  "percent_encode ''redirect_uri'' = ''redirect_uri''"
  "percent_encode ''response_type'' = ''response_type''"
  "percent_encode ''scope'' = ''scope''"
  "percent_encode ''state'' = ''state''"
  "percent_encode ''code'' = ''code''"
  by (simp_all add: percent_encode_def encode_char_def unreserved_def)

lemma buildAuthorizationUrl_url:
  "fst (fst (buildAuthorizationUrl e params w)) =
     authorizeUrl @ ''?client_id='' @ percent_encode (clientId (config e))
       @ ''&redirect_uri=''
       @ percent_encode (case redirect params of Some r \<Rightarrow> r | None \<Rightarrow> redirectUri (config e))
       @ ''&response_type=code''
       @ ''&scope=''
       @ percent_encode (join '' '' (case scopes params of Some l \<Rightarrow> l
                                                       | None \<Rightarrow> defaultScopes (config e)))
       @ ''&state=''
       @ percent_encode (snd (fst (buildAuthorizationUrl e params w)))"
  by (simp add: buildAuthorizationUrl_def draw_uuid_def Let_def qs_stringify_def qs_names
           split: option.splits prod.splits)

text \<open>
  C9, as amended. Every call returns, without a POST (the world changes by the UUID drawn,
  at most), the URL of the authorization endpoint followed by \<open>client_id\<close>,
  \<open>redirect_uri\<close>, \<open>response_type=code\<close>, the scope list joined by spaces and the
  returned state, each value percent-encoded; the returned state is \<open>params.state\<close> when
  the caller passes one, and the next value of \<open>crypto.randomUUID()\<close> otherwise.
\<close>

theorem buildAuthorizationUrl_returns:
  "buildAuthorizationUrl e params w = ((url, st), w') \<Longrightarrow>
     st = (case state params of Some s \<Rightarrow> s | None \<Rightarrow> randomUUID e (uuids_drawn w))
     \<and> url = authorizeUrl @ ''?client_id='' @ percent_encode (clientId (config e))
         @ ''&redirect_uri=''
         @ percent_encode (case redirect params of Some r \<Rightarrow> r | None \<Rightarrow> redirectUri (config e))
         @ ''&response_type=code''
         @ ''&scope=''
         @ percent_encode (join '' '' (case scopes params of Some l \<Rightarrow> l
                                                         | None \<Rightarrow> defaultScopes (config e)))
         @ ''&state='' @ percent_encode st
     \<and> posts w' = posts w
     \<and> w' = (case state params of Some s \<Rightarrow> w | None \<Rightarrow> w\<lparr>uuids_drawn := Suc (uuids_drawn w)\<rparr>)"
  using buildAuthorizationUrl_state [of e params w] buildAuthorizationUrl_world [of e params w]
    buildAuthorizationUrl_url [of e params w]
  by (auto split: option.splits)

text \<open>The call the login route makes, in the example world.\<close>

theorem buildAuthorizationUrl_returns_witness:
  "buildAuthorizationUrl example_env \<lparr>state = None, scopes = None, redirect = None\<rparr> example_world
   = ((''https://api.prod.whoop.com/oauth/oauth2/auth?client_id=cid&redirect_uri=https%3A%2F%2Fmcp.example%2Foauth%2Fwhoop%2Fcallback&response_type=code&scope=read%3Asleep%20read%3Acycles%20read%3Aprofile&state=uuid-'',
       ''uuid-''),
      example_world\<lparr>uuids_drawn := 1\<rparr>)"
proof -
  obtain url st w' where
    b: "buildAuthorizationUrl example_env \<lparr>state = None, scopes = None, redirect = None\<rparr>
          example_world = ((url, st), w')"
    by (metis surj_pair)
  from buildAuthorizationUrl_returns [OF b]
  have "st = ''uuid-''"
    and "url = ''https://api.prod.whoop.com/oauth/oauth2/auth?client_id=cid&redirect_uri=https%3A%2F%2Fmcp.example%2Foauth%2Fwhoop%2Fcallback&response_type=code&scope=read%3Asleep%20read%3Acycles%20read%3Aprofile&state=uuid-''"
    and "w' = example_world\<lparr>uuids_drawn := 1\<rparr>"
    by (simp_all add: example_env_def example_config_def example_world_def authorizeUrl_def
          redirectUri_def percent_encode_def encode_char_def unreserved_def hex_digit_def)
  with b show ?thesis by simp
qed

text \<open>
  C9, as stated, fails: two successive calls with \<open>params.state = ''s''\<close> return the same
  state \<open>''s''\<close>, and no UUID has been drawn.
\<close>

theorem caller_supplied_state_is_reused:
  "(case buildAuthorizationUrl example_env fixed_state_params example_world of
      ((url1, state1), w1) \<Rightarrow>
        (case buildAuthorizationUrl example_env fixed_state_params w1 of
           ((url2, state2), w2) \<Rightarrow> (state1, state2, uuids_drawn w2)))
   = (''s'', ''s'', 0)"
  by (simp add: buildAuthorizationUrl_def fixed_state_params_def example_world_def Let_def)

section \<open>Properties of the authenticated API client\<close>

text \<open>
  Token resolution for a key that is not a property name of \<open>Object.prototype\<close> and has no
  record; for a stored record that is still valid (the world is unchanged: no POST); for a
  stored record that has expired (one POST, and the refreshed access token on success).
\<close>

lemma getAccessToken_absent:
  assumes "readFile (fs w) (tokenStore w) = Inr contents" and "contents k = None"
      and "k \<notin> set Object_prototype"
  shows "getAccessToken e k w = (Inl No_WHOOP_token_available, w)"
  using get_absent_key [OF assms] by (simp add: getAccessToken_def store_get_def)

lemma getAccessToken_valid:
  assumes "store_get w k = Inr (Token token)" and "clock w < expiresAt token"
  shows "getAccessToken e k w = (Inr (Some (accessToken token)), w)"
  using assms by (simp add: getAccessToken_def)

lemma getAccessToken_expired:
  assumes "store_get w k = Inr (Token token)" and "expiresAt token \<le> clock w"
  shows "getAccessToken e k w =
           (case WhoopOAuthClient_refreshToken e k w of
              (Inl err, w') \<Rightarrow> (Inl err, w')
            | (Inr refreshed, w') \<Rightarrow> (Inr (Some (accessToken refreshed)), w'))"
    and "posts (snd (getAccessToken e k w)) = posts w @ [refresh_body e (Token token)]"
proof -
  show a: "getAccessToken e k w =
           (case WhoopOAuthClient_refreshToken e k w of
              (Inl err, w') \<Rightarrow> (Inl err, w')
            | (Inr refreshed, w') \<Rightarrow> (Inr (Some (accessToken refreshed)), w'))"
    using assms by (simp add: getAccessToken_def)
  have "posts (snd (WhoopOAuthClient_refreshToken e k w)) = posts w @ [refresh_body e (Token token)]"
    using refreshToken_posts_once [OF assms(1)] by simp
  then show "posts (snd (getAccessToken e k w)) = posts w @ [refresh_body e (Token token)]"
    unfolding a by (auto split: prod.splits sum.splits)
qed

lemma getAccessToken_expired_token:
  assumes "store_get w k = Inr (Token token)" and "expiresAt token \<le> clock w"
      and "outcome (token_endpoint e (posts w) (refresh_body e (Token token))) = Inr data"
      and "getAccessToken e k w = (Inr v, w')"
  shows "v = Some (access_token data)"
proof -
  from assms(4) obtain refreshed where
    r: "WhoopOAuthClient_refreshToken e k w = (Inr refreshed, w')"
    and v: "v = Some (accessToken refreshed)"
    unfolding getAccessToken_expired(1) [OF assms(1,2)]
    by (auto split: prod.splits sum.splits)
  from refreshToken_result [OF r] assms(1,3) have "accessToken refreshed = access_token data"
    by (auto simp: normalizeTokenResponse_def)
  with v show ?thesis by simp
qed

text \<open>
  C1 (no record stored for the key: \<open>getAccessToken\<close> fails). At the key \<open>constructor\<close>, on
  a store with no token file: the store returns the inherited \<open>Object.prototype.constructor\<close>,
  which is truthy and has no \<open>expiresAt\<close>, so \<open>getAccessToken\<close> throws nothing, posts nothing
  and resolves to \<open>undefined\<close>. (\<open>getAccessToken_absent\<close>, \<open>getAccessToken_expired\<close>,
  \<open>getAccessToken_expired_token\<close> and \<open>getAccessToken_valid\<close> are the three cases of the
  claim for the other keys.)
\<close>

theorem getAccessToken_inherited_key:
  "getAccessToken example_env ''constructor'' example_world = (Inr None, example_world)"
  by (simp add: getAccessToken_def world_eval store_eval)

section \<open>Properties of the OAuth redirect handler\<close>

text \<open>
  \<open>exchangeCode\<close> touches neither map. The three outcomes of a redirect that carries a
  code and a state.
\<close>

lemma exchangeCode_frame:
  "exchangeCode e code k w = (r, w') \<Longrightarrow>
     pendingStates w' = pendingStates w \<and> transports w' = transports w
     \<and> constructed w' = constructed w \<and> uuids_drawn w' = uuids_drawn w"
proof -
  assume x: "exchangeCode e code k w = (r, w')"
  obtain r1 w1 where p: "axios_post e (exchange_body e code) w = (r1, w1)"
    by (cases "axios_post e (exchange_body e code) w")
  note eff = axios_post_effect [OF p]
  show ?thesis
  proof (cases r1)
    case (Inl status)
    with x p have "w' = w1" by (simp add: exchangeCode_def)
    with eff show ?thesis by simp
  next
    case (Inr data)
    obtain r2 w2 where s: "store_set (normalizeTokenResponse (clock w1) data Null) k w1 = (r2, w2)"
      by (cases "store_set (normalizeTokenResponse (clock w1) data Null) k w1")
    with x p Inr have "w' = w2" by (cases r2) (auto simp: exchangeCode_def Let_def)
    with eff store_set_frame [OF s] show ?thesis by simp
  qed
qed











section \<open>Properties of the session map\<close>

text \<open>The cases of \<open>POST /sse\<close>, one by one.\<close>

lemma transport_handleRequest_cases:
  "transport_handleRequest e t req w =
     (if handleRequest e t req = Handled then (Inr (), w)
      else if handleRequest e t req = SessionInitialized
      then (Inr (), w\<lparr>uuids_drawn := Suc (uuids_drawn w),
                      transports := (transports w)(randomUUID e (uuids_drawn w) \<mapsto> t)\<rparr>)
      else (Inl SdkError, w))"
  by (cases "handleRequest e t req") (simp_all add: transport_handleRequest_def draw_uuid_def)

lemma transport_handleRequest_keeps_sessions:
  assumes "transport_handleRequest e t req w = (r, w')" and "transports w sid \<noteq> None"
  shows "transports w' sid \<noteq> None"
  using assms by (auto simp: transport_handleRequest_cases split: if_splits)

lemma transport_handleRequest_constructed:
  assumes "transport_handleRequest e t req w = (r, w')"
  shows "constructed w' = constructed w"
  using assms by (auto simp: transport_handleRequest_cases split: if_splits)

lemma post_sse_unauthorized:
  "\<not> validateApiKey e req \<Longrightarrow> post_sse e req w = (unauthorized, w)"
  by (simp add: post_sse_def)

lemma post_sse_missing:
  assumes "validateApiKey e req" and "falsy (first_value (mcp_session_id req))"
      and "\<not> isInitializeRequest req"
  shows "post_sse e req w = (JsonRpcError 400 (- 32000) ''Missing MCP session ID.'', w)"
  using assms by (simp add: post_sse_def)

lemma post_sse_unknown:
  assumes "validateApiKey e req" and "first_value (mcp_session_id req) = Some sid"
      and "sid \<noteq> []" and "transports w sid = None"
  shows "post_sse e req w = (JsonRpcError 404 (- 32001) (''Unknown MCP session: '' @ sid), w)"
  using assms by (simp add: post_sse_def falsy_def)

lemma post_sse_known:
  assumes "validateApiKey e req" and "first_value (mcp_session_id req) = Some sid"
      and "sid \<noteq> []" and "transports w sid = Some t"
  shows "post_sse e req w =
           (case transport_handleRequest e t req w of
              (Inl err, w2) \<Rightarrow> (JsonRpcFailure 500 (- 32603) err, w2)
            | (Inr u, w2) \<Rightarrow> (Delegated t, w2))"
  using assms by (simp add: post_sse_def falsy_def)

lemma post_sse_initialize:
  assumes "validateApiKey e req" and "falsy (first_value (mcp_session_id req))"
      and "isInitializeRequest req" and "\<not> connect_throws e (constructed w)"
      and "handleRequest e (constructed w) req = SessionInitialized"
  shows "post_sse e req w =
           (Delegated (constructed w),
            w\<lparr>constructed := Suc (constructed w), uuids_drawn := Suc (uuids_drawn w),
              transports := (transports w)(randomUUID e (uuids_drawn w) \<mapsto> constructed w)\<rparr>)"
  using assms by (simp add: post_sse_def transport_handleRequest_cases Let_def)

lemma new_transport_is_new:
  "transports_constructed w \<Longrightarrow> transports w sid \<noteq> Some (constructed w)"
  by (auto simp: transports_constructed_def)

text \<open>The fields of the example surroundings.\<close>

lemma example_env_fields:
  "config example_env = example_config"
  "randomUUID example_env n = ''uuid-'' @ replicate n CHR ''x''"
  "connect_throws example_env t = False"
  "handleRequest example_env t req = (if isInitializeRequest req then SessionInitialized else Handled)"
  "token_endpoint example_env history body = \<lparr>latency = 250, outcome = Inr example_response\<rparr>"
  by (simp_all add: example_env_def)

lemma keyed_env_fields:
  "apiKey (config keyed_env) = Some ''k3y''"
  "randomUUID keyed_env = randomUUID example_env"
  "connect_throws keyed_env = connect_throws example_env"
  "handleRequest keyed_env = handleRequest example_env"
  by (simp_all add: keyed_env_def example_env_def)

lemma example_world_fields:
  "transports example_world = Map.empty" "pendingStates example_world = Map.empty"
  "constructed example_world = 0" "uuids_drawn example_world = 0"
  "clock example_world = 1000" "posts example_world = []"
  "fs example_world = example_fs" "tokenStore example_world = example_store"
  by (simp_all add: example_world_def)

lemmas request_eval =
  validateApiKey_def falsy_def first_value_def startsWith_def plain_request_def
  init_request_def session_request_def unknown_session_request_def bearer_request_def
  example_env_fields keyed_env_fields example_world_fields example_config_def

text \<open>No route removes an entry of the session map.\<close>

lemma post_sse_keeps_sessions:
  assumes "transports w sid \<noteq> None"
  shows "transports (snd (post_sse e req w)) sid \<noteq> None"
proof -
  have keep: "transports (snd (case transport_handleRequest e t req w1 of
                                 (Inl err, w2) \<Rightarrow> (f err, w2)
                               | (Inr u, w2) \<Rightarrow> (g, w2))) sid \<noteq> None"
    if "transports w1 sid \<noteq> None" for t w1 and f :: "error \<Rightarrow> response" and g
    using transport_handleRequest_keeps_sessions [OF _ that, of e t req]
    by (cases "transport_handleRequest e t req w1") (auto split: sum.splits)
  show ?thesis
    using assms keep [of w] keep [of "w\<lparr>constructed := Suc (constructed w)\<rparr>"]
    by (simp add: post_sse_def Let_def split: option.splits)
qed

lemma get_sse_keeps_sessions:
  assumes "transports w sid \<noteq> None"
  shows "transports (snd (get_sse e req w)) sid \<noteq> None"
proof -
  have keep: "transports (snd (case transport_handleRequest e t req w of
                                 (Inl err, w2) \<Rightarrow> (f err, w2)
                               | (Inr u, w2) \<Rightarrow> (g, w2))) sid \<noteq> None"
    for t and f :: "error \<Rightarrow> response" and g
    using transport_handleRequest_keeps_sessions [OF _ assms, of e t req]
    by (cases "transport_handleRequest e t req w") (auto split: sum.splits)
  show ?thesis
    using assms keep by (simp add: get_sse_def Let_def split: option.splits)
qed

lemma login_transports: "transports (snd (login e qkey qnext qscopes w)) = transports w"
  by (simp add: login_def buildAuthorizationUrl_def draw_uuid_def Let_def split: prod.splits)

lemma callback_transports: "transports (snd (callback e qcode qstate w)) = transports w"
proof (cases qcode; cases qstate)
  fix code st assume q: "qcode = Some code" "qstate = Some st"
  show ?thesis
  proof (cases "pendingStates w st")
    case None
    with q show ?thesis by (simp add: callback_def)
  next
    case (Some entry)
    obtain r w1 where x: "exchangeCode e code (key entry) w = (r, w1)"
      by (cases "exchangeCode e code (key entry) w")
    from exchangeCode_frame [OF x] have "transports w1 = transports w" by simp
    with q Some x show ?thesis
      by (cases r) (auto simp: callback_def Let_def split: option.splits)
  qed
qed (simp_all add: callback_def)

lemma healthz_world: "snd (healthz w) = w"
  by (simp add: healthz_def split: sum.splits)

lemma handle_keeps_sessions:
  "transports w sid \<noteq> None \<Longrightarrow> transports (snd (handle e ev w)) sid \<noteq> None"
  by (cases ev)
     (simp_all add: login_transports callback_transports healthz_world
        post_sse_keeps_sessions get_sse_keeps_sessions)

lemma run_keeps_sessions:
  "transports w sid \<noteq> None \<Longrightarrow> transports (run e evs w) sid \<noteq> None"
proof (induction evs arbitrary: w)
  case Nil
  then show ?case by simp
next
  case (Cons ev evs)
  from Cons.prems have "transports (snd (handle e ev w)) sid \<noteq> None"
    by (rule handle_keeps_sessions)
  then have "transports (run e evs (snd (handle e ev w))) sid \<noteq> None"
    by (rule Cons.IH)
  then show ?case by simp
qed

text \<open>
  Every transport in the map has been constructed: this holds in the initial world and is
  kept by every event.
\<close>

lemma transport_handleRequest_constructed_inv:
  assumes "transport_handleRequest e t req w = (r, w')"
      and "transports_constructed w" and "t < constructed w"
  shows "transports_constructed w'"
  using assms
  by (auto simp: transport_handleRequest_cases transports_constructed_def split: if_splits)

lemma post_sse_constructed_inv:
  assumes "transports_constructed w"
  shows "transports_constructed (snd (post_sse e req w))"
proof -
  have step: "transports_constructed (snd (case transport_handleRequest e t req w1 of
                                 (Inl err, w2) \<Rightarrow> (f err, w2)
                               | (Inr u, w2) \<Rightarrow> (g, w2)))"
    if "transports_constructed w1" "t < constructed w1"
    for t w1 and f :: "error \<Rightarrow> response" and g
    using transport_handleRequest_constructed_inv [OF _ that, of e req]
    by (cases "transport_handleRequest e t req w1") (auto split: sum.splits)
  have w1: "transports_constructed (w\<lparr>constructed := Suc (constructed w)\<rparr>)"
    using assms by (auto simp: transports_constructed_def less_Suc_eq)
  have known: "t < constructed w" if "transports w sid = Some t" for sid t
    using assms that by (auto simp: transports_constructed_def)
  show ?thesis
    using assms w1 step [OF w1, of "constructed w"] step [OF assms] known
    by (auto simp: post_sse_def Let_def split: option.splits)
qed

lemma get_sse_constructed_inv:
  assumes "transports_constructed w"
  shows "transports_constructed (snd (get_sse e req w))"
proof -
  have step: "transports_constructed (snd (case transport_handleRequest e t req w of
                                 (Inl err, w2) \<Rightarrow> (f err, w2)
                               | (Inr u, w2) \<Rightarrow> (g, w2)))"
    if "t < constructed w" for t and f :: "error \<Rightarrow> response" and g
    using transport_handleRequest_constructed_inv [OF _ assms that, of e req]
    by (cases "transport_handleRequest e t req w") (auto split: sum.splits)
  have known: "t < constructed w" if "transports w sid = Some t" for sid t
    using assms that by (auto simp: transports_constructed_def)
  show ?thesis
    using assms step known by (auto simp: get_sse_def Let_def split: option.splits)
qed

lemma login_constructed: "constructed (snd (login e qkey qnext qscopes w)) = constructed w"
  by (simp add: login_def buildAuthorizationUrl_def draw_uuid_def Let_def split: prod.splits)

lemma callback_constructed: "constructed (snd (callback e qcode qstate w)) = constructed w"
proof (cases qcode; cases qstate)
  fix code st assume q: "qcode = Some code" "qstate = Some st"
  show ?thesis
  proof (cases "pendingStates w st")
    case None
    with q show ?thesis by (simp add: callback_def)
  next
    case (Some entry)
    obtain r w1 where x: "exchangeCode e code (key entry) w = (r, w1)"
      by (cases "exchangeCode e code (key entry) w")
    from exchangeCode_frame [OF x] have "constructed w1 = constructed w" by simp
    with q Some x show ?thesis
      by (cases r) (auto simp: callback_def Let_def split: option.splits)
  qed
qed (simp_all add: callback_def)

lemma transports_constructed_initially: "transports_constructed example_world"
  by (simp add: transports_constructed_def example_world_def)

lemma handle_keeps_transports_constructed:
  assumes "transports_constructed w"
  shows "transports_constructed (snd (handle e ev w))"
proof (cases ev)
  case (Login qkey qnext qscopes)
  with assms show ?thesis
    by (simp add: transports_constructed_def login_transports login_constructed)
next
  case (Callback qcode qstate)
  with assms show ?thesis
    by (simp add: transports_constructed_def callback_transports callback_constructed)
next
  case Healthz
  with assms show ?thesis by (simp add: healthz_world)
next
  case (PostSse req)
  with assms show ?thesis by (simp add: post_sse_constructed_inv)
next
  case (GetSse req)
  with assms show ?thesis by (simp add: get_sse_constructed_inv)
next
  case (TransportClosed t)
  with assms show ?thesis by simp
qed

lemma run_keeps_transports_constructed:
  "transports_constructed w \<Longrightarrow> transports_constructed (run e evs w)"
  by (induction evs arbitrary: w) (simp_all add: handle_keeps_transports_constructed)

text \<open>
  What one event does to the session map: it leaves the binding of a session id as it was,
  or binds the id to the UUID drawn at that moment. So every id in the map is a UUID drawn
  earlier, and when \<open>randomUUID\<close> never returns a value twice, a binding once made is never
  changed and the next UUID is in the map under no transport.
\<close>

lemma transport_handleRequest_step:
  assumes "transport_handleRequest e t req w = (r, w')"
  shows "uuids_drawn w \<le> uuids_drawn w'"
    and "transports w' sid = transports w sid
         \<or> (sid = randomUUID e (uuids_drawn w) \<and> uuids_drawn w < uuids_drawn w')"
  using assms by (auto simp: transport_handleRequest_cases split: if_splits)

lemma post_sse_step:
  "uuids_drawn w \<le> uuids_drawn (snd (post_sse e req w))
   \<and> (transports (snd (post_sse e req w)) sid = transports w sid
      \<or> (sid = randomUUID e (uuids_drawn w)
          \<and> uuids_drawn w < uuids_drawn (snd (post_sse e req w))))"
proof -
  have step: "uuids_drawn w1 \<le> uuids_drawn (snd (case transport_handleRequest e t req w1 of
                                 (Inl err, w2) \<Rightarrow> (f err, w2)
                               | (Inr u, w2) \<Rightarrow> (g, w2)))
      \<and> (transports (snd (case transport_handleRequest e t req w1 of
                                 (Inl err, w2) \<Rightarrow> (f err, w2)
                               | (Inr u, w2) \<Rightarrow> (g, w2))) sid = transports w1 sid
          \<or> (sid = randomUUID e (uuids_drawn w1)
              \<and> uuids_drawn w1 < uuids_drawn (snd (case transport_handleRequest e t req w1 of
                                 (Inl err, w2) \<Rightarrow> (f err, w2)
                               | (Inr u, w2) \<Rightarrow> (g, w2)))))"
    for t w1 and f :: "error \<Rightarrow> response" and g
    using transport_handleRequest_step [of e t req w1]
    by (cases "transport_handleRequest e t req w1") (auto split: sum.splits)
  show ?thesis
    using step [of w] step [of "w\<lparr>constructed := Suc (constructed w)\<rparr>"]
    by (simp add: post_sse_def Let_def split: option.splits)
qed

lemma get_sse_step:
  "uuids_drawn w \<le> uuids_drawn (snd (get_sse e req w))
   \<and> (transports (snd (get_sse e req w)) sid = transports w sid
      \<or> (sid = randomUUID e (uuids_drawn w)
          \<and> uuids_drawn w < uuids_drawn (snd (get_sse e req w))))"
proof -
  have step: "uuids_drawn w \<le> uuids_drawn (snd (case transport_handleRequest e t req w of
                                 (Inl err, w2) \<Rightarrow> (f err, w2)
                               | (Inr u, w2) \<Rightarrow> (g, w2)))
      \<and> (transports (snd (case transport_handleRequest e t req w of
                                 (Inl err, w2) \<Rightarrow> (f err, w2)
                               | (Inr u, w2) \<Rightarrow> (g, w2))) sid = transports w sid
          \<or> (sid = randomUUID e (uuids_drawn w)
              \<and> uuids_drawn w < uuids_drawn (snd (case transport_handleRequest e t req w of
                                 (Inl err, w2) \<Rightarrow> (f err, w2)
                               | (Inr u, w2) \<Rightarrow> (g, w2)))))"
    for t and f :: "error \<Rightarrow> response" and g
    using transport_handleRequest_step [of e t req w]
    by (cases "transport_handleRequest e t req w") (auto split: sum.splits)
  show ?thesis
    using step by (simp add: get_sse_def Let_def split: option.splits)
qed

lemma login_uuids: "uuids_drawn w \<le> uuids_drawn (snd (login e qkey qnext qscopes w))"
  by (simp add: login_def buildAuthorizationUrl_def draw_uuid_def Let_def split: prod.splits)

lemma callback_uuids: "uuids_drawn (snd (callback e qcode qstate w)) = uuids_drawn w"
proof (cases qcode; cases qstate)
  fix code st assume q: "qcode = Some code" "qstate = Some st"
  show ?thesis
  proof (cases "pendingStates w st")
    case None
    with q show ?thesis by (simp add: callback_def)
  next
    case (Some entry)
    obtain r w1 where x: "exchangeCode e code (key entry) w = (r, w1)"
      by (cases "exchangeCode e code (key entry) w")
    from exchangeCode_frame [OF x] have "uuids_drawn w1 = uuids_drawn w" by simp
    with q Some x show ?thesis
      by (cases r) (auto simp: callback_def Let_def split: option.splits)
  qed
qed (simp_all add: callback_def)

lemma handle_step:
  "uuids_drawn w \<le> uuids_drawn (snd (handle e ev w))
   \<and> (transports (snd (handle e ev w)) sid = transports w sid
      \<or> (sid = randomUUID e (uuids_drawn w)
          \<and> uuids_drawn w < uuids_drawn (snd (handle e ev w))))"
proof (cases ev)
  case (Login qkey qnext qscopes)
  then show ?thesis by (simp add: login_transports login_uuids)
next
  case (Callback qcode qstate)
  then show ?thesis by (simp add: callback_transports callback_uuids)
next
  case Healthz
  then show ?thesis by (simp add: healthz_world)
next
  case (PostSse req)
  then show ?thesis using post_sse_step [of w e req sid] by simp
next
  case (GetSse req)
  then show ?thesis using get_sse_step [of w e req sid] by simp
next
  case (TransportClosed t)
  then show ?thesis by simp
qed

lemma handle_keeps_session_ids_drawn:
  assumes "session_ids_drawn e w"
  shows "session_ids_drawn e (snd (handle e ev w))"
  unfolding session_ids_drawn_def
proof (intro allI impI)
  fix sid assume m: "transports (snd (handle e ev w)) sid \<noteq> None"
  note st = handle_step [of w e ev sid]
  show "\<exists>n<uuids_drawn (snd (handle e ev w)). sid = randomUUID e n"
  proof (cases "transports (snd (handle e ev w)) sid = transports w sid")
    case True
    with m assms obtain n where "n < uuids_drawn w" "sid = randomUUID e n"
      by (auto simp: session_ids_drawn_def)
    with st show ?thesis by (intro exI [of _ n]) simp
  next
    case False
    with st show ?thesis by (intro exI [of _ "uuids_drawn w"]) simp
  qed
qed

lemma handle_keeps_binding:
  assumes "inj (randomUUID e)" and "session_ids_drawn e w" and "transports w sid = Some t"
  shows "transports (snd (handle e ev w)) sid = Some t"
proof -
  from assms(2,3) obtain n where n: "n < uuids_drawn w" "sid = randomUUID e n"
    by (auto simp: session_ids_drawn_def)
  have "sid \<noteq> randomUUID e (uuids_drawn w)"
    using n assms(1) by (auto dest: injD)
  with handle_step [of w e ev sid] assms(3) show ?thesis by simp
qed

lemma run_keeps_session_ids_drawn:
  "session_ids_drawn e w \<Longrightarrow> session_ids_drawn e (run e evs w)"
  by (induction evs arbitrary: w) (simp_all add: handle_keeps_session_ids_drawn)

lemma run_keeps_binding:
  "inj (randomUUID e) \<Longrightarrow> session_ids_drawn e w \<Longrightarrow> transports w sid = Some t \<Longrightarrow>
     transports (run e evs w) sid = Some t"
  by (induction evs arbitrary: w)
     (simp_all add: handle_keeps_session_ids_drawn handle_keeps_binding)

lemma new_session_id_is_unseen:
  assumes "inj (randomUUID e)" and "session_ids_drawn e w"
  shows "transports w (randomUUID e (uuids_drawn w)) = None"
    and "\<forall>n < uuids_drawn w. randomUUID e n \<noteq> randomUUID e (uuids_drawn w)"
proof -
  show "transports w (randomUUID e (uuids_drawn w)) = None"
  proof (rule ccontr)
    assume "transports w (randomUUID e (uuids_drawn w)) \<noteq> None"
    with assms(2) obtain n where "n < uuids_drawn w" "randomUUID e (uuids_drawn w) = randomUUID e n"
      by (auto simp: session_ids_drawn_def)
    with assms(1) show False by (auto dest: injD)
  qed
  show "\<forall>n < uuids_drawn w. randomUUID e n \<noteq> randomUUID e (uuids_drawn w)"
    using assms(1) by (auto dest: injD)
qed

lemma example_randomUUID_inj: "inj (randomUUID example_env)"
proof (rule injI)
  fix m n assume "randomUUID example_env m = randomUUID example_env n"
  then have "length (replicate m CHR ''x'') = length (replicate n CHR ''x'')"
    by (simp add: example_env_fields)
  then show "m = n" by simp
qed

lemma session_ids_drawn_initially: "session_ids_drawn e example_world"
  by (simp add: session_ids_drawn_def example_world_def)

lemma session_world_eq:
  "session_world = example_world\<lparr>constructed := Suc 0, uuids_drawn := Suc 0,
                                  transports := [''uuid-'' \<mapsto> 0]\<rparr>"
  by (simp add: session_world_def post_sse_def transport_handleRequest_cases request_eval
        example_world_def)

lemma session_world_fields:
  "transports session_world = [''uuid-'' \<mapsto> 0]" "uuids_drawn session_world = 1"
  "constructed session_world = 1"
  by (simp_all add: session_world_eq example_world_fields)

lemma session_ids_drawn_session_world: "session_ids_drawn example_env session_world"
  by (simp add: session_ids_drawn_def session_world_fields example_env_fields)

lemma example_handleRequest_plain:
  "\<not> isInitializeRequest req \<Longrightarrow> transport_handleRequest example_env t req w = (Inr (), w)"
  by (simp add: transport_handleRequest_cases example_env_fields)

text \<open>
  C5, as amended. For a request that passes the API-key check: with no session id (or an
  empty one) and an initialization body, when \<open>server.connect\<close> does not throw and the
  transport signals that the session is initialised, the session id that
  \<open>crypto.randomUUID()\<close> returned is bound to the transport just constructed. That id is new
  and previously unseen (in the map under no transport, and different from every UUID
  drawn before) when \<open>randomUUID\<close> never returns a value twice; the transport is new (in the
  map under no id: every transport in the map was constructed earlier). The next request
  that bears that id is handed to that transport, and so is every later request, after any
  events in between, when \<open>randomUUID\<close> never returns a value twice. With no session id and
  a body that is no initialization the answer is 400, missing session id, and the world is
  unchanged; with a non-empty session id that is not in the map the answer is 404, unknown
  session, and the world is unchanged.
\<close>

theorem post_sse_routes_by_session_id:
  assumes "validateApiKey e req"
  shows
    "(falsy (first_value (mcp_session_id req)) \<and> isInitializeRequest req
        \<and> \<not> connect_throws e (constructed w)
        \<and> handleRequest e (constructed w) req = SessionInitialized \<longrightarrow>
        (let newSessionId = randomUUID e (uuids_drawn w);
             w' = w\<lparr>constructed := Suc (constructed w), uuids_drawn := Suc (uuids_drawn w),
                     transports := (transports w)(newSessionId \<mapsto> constructed w)\<rparr>
         in post_sse e req w = (Delegated (constructed w), w')
            \<and> (inj (randomUUID e) \<and> session_ids_drawn e w \<longrightarrow>
                 transports w newSessionId = None
                 \<and> (\<forall>n < uuids_drawn w. randomUUID e n \<noteq> newSessionId))
            \<and> (transports_constructed w \<longrightarrow> (\<forall>sid. transports w sid \<noteq> Some (constructed w)))
            \<and> (\<forall>req'. validateApiKey e req' \<and> newSessionId \<noteq> []
                   \<and> first_value (mcp_session_id req') = Some newSessionId \<longrightarrow>
                   post_sse e req' w' =
                     (case transport_handleRequest e (constructed w) req' w' of
                        (Inl err, w2) \<Rightarrow> (JsonRpcFailure 500 (- 32603) err, w2)
                      | (Inr u, w2) \<Rightarrow> (Delegated (constructed w), w2)))
            \<and> (inj (randomUUID e) \<and> session_ids_drawn e w \<longrightarrow>
                 (\<forall>evs req'. validateApiKey e req' \<and> newSessionId \<noteq> []
                     \<and> first_value (mcp_session_id req') = Some newSessionId \<longrightarrow>
                     post_sse e req' (run e evs w') =
                       (case transport_handleRequest e (constructed w) req' (run e evs w') of
                          (Inl err, w2) \<Rightarrow> (JsonRpcFailure 500 (- 32603) err, w2)
                        | (Inr u, w2) \<Rightarrow> (Delegated (constructed w), w2))))))
     \<and> (falsy (first_value (mcp_session_id req)) \<and> \<not> isInitializeRequest req \<longrightarrow>
          post_sse e req w = (JsonRpcError 400 (- 32000) ''Missing MCP session ID.'', w))
     \<and> (\<forall>sid. first_value (mcp_session_id req) = Some sid \<and> sid \<noteq> []
            \<and> transports w sid = None \<longrightarrow>
          post_sse e req w =
            (JsonRpcError 404 (- 32001) (''Unknown MCP session: '' @ sid), w))"
proof (intro conjI allI impI)
  assume a: "falsy (first_value (mcp_session_id req)) \<and> isInitializeRequest req
        \<and> \<not> connect_throws e (constructed w)
        \<and> handleRequest e (constructed w) req = SessionInitialized"
  define newSessionId where "newSessionId = randomUUID e (uuids_drawn w)"
  define w' where "w' = w\<lparr>constructed := Suc (constructed w), uuids_drawn := Suc (uuids_drawn w),
                     transports := (transports w)(newSessionId \<mapsto> constructed w)\<rparr>"
  have 1: "post_sse e req w = (Delegated (constructed w), w')"
    unfolding w'_def newSessionId_def using assms a by (intro post_sse_initialize) simp_all
  have bound: "transports w' newSessionId = Some (constructed w)"
    by (simp add: w'_def)
  have 2: "inj (randomUUID e) \<and> session_ids_drawn e w \<longrightarrow>
             transports w newSessionId = None
             \<and> (\<forall>n < uuids_drawn w. randomUUID e n \<noteq> newSessionId)"
    unfolding newSessionId_def using new_session_id_is_unseen [of e w] by blast
  have 3: "transports_constructed w \<longrightarrow> (\<forall>sid. transports w sid \<noteq> Some (constructed w))"
    by (simp add: new_transport_is_new)
  have 4: "\<forall>req'. validateApiKey e req' \<and> newSessionId \<noteq> []
                   \<and> first_value (mcp_session_id req') = Some newSessionId \<longrightarrow>
                   post_sse e req' w' =
                     (case transport_handleRequest e (constructed w) req' w' of
                        (Inl err, w2) \<Rightarrow> (JsonRpcFailure 500 (- 32603) err, w2)
                      | (Inr u, w2) \<Rightarrow> (Delegated (constructed w), w2))"
  proof (intro allI impI)
    fix req'
    assume b: "validateApiKey e req' \<and> newSessionId \<noteq> []
                 \<and> first_value (mcp_session_id req') = Some newSessionId"
    with bound show "post_sse e req' w' =
                     (case transport_handleRequest e (constructed w) req' w' of
                        (Inl err, w2) \<Rightarrow> (JsonRpcFailure 500 (- 32603) err, w2)
                      | (Inr u, w2) \<Rightarrow> (Delegated (constructed w), w2))"
      by (intro post_sse_known [where sid = newSessionId]) simp_all
  qed
  have 5: "inj (randomUUID e) \<and> session_ids_drawn e w \<longrightarrow>
                 (\<forall>evs req'. validateApiKey e req' \<and> newSessionId \<noteq> []
                     \<and> first_value (mcp_session_id req') = Some newSessionId \<longrightarrow>
                     post_sse e req' (run e evs w') =
                       (case transport_handleRequest e (constructed w) req' (run e evs w') of
                          (Inl err, w2) \<Rightarrow> (JsonRpcFailure 500 (- 32603) err, w2)
                        | (Inr u, w2) \<Rightarrow> (Delegated (constructed w), w2)))"
  proof (intro allI impI)
    fix evs req'
    assume h: "inj (randomUUID e) \<and> session_ids_drawn e w"
    assume b: "validateApiKey e req' \<and> newSessionId \<noteq> []
                 \<and> first_value (mcp_session_id req') = Some newSessionId"
    have "snd (handle e (PostSse req) w) = w'"
      using 1 by simp
    with handle_keeps_session_ids_drawn [of e w "PostSse req"] h
    have inv: "session_ids_drawn e w'" by simp
    from h have i: "inj (randomUUID e)" by simp
    have "transports (run e evs w') newSessionId = Some (constructed w)"
      by (rule run_keeps_binding [OF i inv bound])
    with b show "post_sse e req' (run e evs w') =
                       (case transport_handleRequest e (constructed w) req' (run e evs w') of
                          (Inl err, w2) \<Rightarrow> (JsonRpcFailure 500 (- 32603) err, w2)
                        | (Inr u, w2) \<Rightarrow> (Delegated (constructed w), w2))"
      by (intro post_sse_known [where sid = newSessionId]) simp_all
  qed
  from 1 2 3 4 5 show
    "let newSessionId = randomUUID e (uuids_drawn w);
         w' = w\<lparr>constructed := Suc (constructed w), uuids_drawn := Suc (uuids_drawn w),
                 transports := (transports w)(newSessionId \<mapsto> constructed w)\<rparr>
     in post_sse e req w = (Delegated (constructed w), w')
        \<and> (inj (randomUUID e) \<and> session_ids_drawn e w \<longrightarrow>
             transports w newSessionId = None
             \<and> (\<forall>n < uuids_drawn w. randomUUID e n \<noteq> newSessionId))
        \<and> (transports_constructed w \<longrightarrow> (\<forall>sid. transports w sid \<noteq> Some (constructed w)))
        \<and> (\<forall>req'. validateApiKey e req' \<and> newSessionId \<noteq> []
               \<and> first_value (mcp_session_id req') = Some newSessionId \<longrightarrow>
               post_sse e req' w' =
                 (case transport_handleRequest e (constructed w) req' w' of
                    (Inl err, w2) \<Rightarrow> (JsonRpcFailure 500 (- 32603) err, w2)
                  | (Inr u, w2) \<Rightarrow> (Delegated (constructed w), w2)))
        \<and> (inj (randomUUID e) \<and> session_ids_drawn e w \<longrightarrow>
             (\<forall>evs req'. validateApiKey e req' \<and> newSessionId \<noteq> []
                 \<and> first_value (mcp_session_id req') = Some newSessionId \<longrightarrow>
                 post_sse e req' (run e evs w') =
                   (case transport_handleRequest e (constructed w) req' (run e evs w') of
                      (Inl err, w2) \<Rightarrow> (JsonRpcFailure 500 (- 32603) err, w2)
                    | (Inr u, w2) \<Rightarrow> (Delegated (constructed w), w2))))"
    unfolding Let_def w'_def newSessionId_def by (intro conjI)
next
  assume "falsy (first_value (mcp_session_id req)) \<and> \<not> isInitializeRequest req"
  with assms show "post_sse e req w = (JsonRpcError 400 (- 32000) ''Missing MCP session ID.'', w)"
    by (simp add: post_sse_missing)
next
  fix sid
  assume "first_value (mcp_session_id req) = Some sid \<and> sid \<noteq> [] \<and> transports w sid = None"
  with assms show
    "post_sse e req w = (JsonRpcError 404 (- 32001) (''Unknown MCP session: '' @ sid), w)"
    by (simp add: post_sse_unknown)
qed

text \<open>
  An initialization and a request in the session it opened, at once and after a closure,
  a second initialization and a health check; the second initialization, whose id
  \<open>uuid-x\<close> is not in the map and differs from the first; a request that presents the
  configured API key but no session id; a request with an unknown session id.
\<close>

theorem post_sse_routes_by_session_id_witness:
  "post_sse example_env init_request example_world = (Delegated 0, session_world)
   \<and> transports session_world = [''uuid-'' \<mapsto> 0]
   \<and> fst (post_sse example_env session_request session_world) = Delegated 0
   \<and> fst (post_sse example_env session_request
            (run example_env [TransportClosed 0, PostSse init_request, Healthz] session_world))
       = Delegated 0
   \<and> fst (post_sse example_env init_request session_world) = Delegated 1
   \<and> transports session_world ''uuid-x'' = None
   \<and> randomUUID example_env 0 \<noteq> ''uuid-x''
   \<and> post_sse keyed_env bearer_request example_world
       = (JsonRpcError 400 (- 32000) ''Missing MCP session ID.'', example_world)
   \<and> post_sse example_env unknown_session_request example_world
       = (JsonRpcError 404 (- 32001) ''Unknown MCP session: nope'', example_world)"
proof -
  have v: "validateApiKey example_env init_request" "validateApiKey example_env session_request"
    "validateApiKey keyed_env bearer_request" "validateApiKey example_env unknown_session_request"
    by (simp_all add: request_eval)
  note init = post_sse_routes_by_session_id [OF v(1), of example_world, THEN conjunct1]
  note again = post_sse_routes_by_session_id [OF v(1), of session_world, THEN conjunct1]
  note missing = post_sse_routes_by_session_id [OF v(3), of example_world, THEN conjunct2, THEN conjunct1]
  note unknown = post_sse_routes_by_session_id [OF v(4), of example_world, THEN conjunct2, THEN conjunct2]
  have h: "falsy (first_value (mcp_session_id init_request)) \<and> isInitializeRequest init_request
        \<and> \<not> connect_throws example_env (constructed example_world)
        \<and> handleRequest example_env (constructed example_world) init_request = SessionInitialized"
    by (simp add: request_eval)
  note L = init [THEN mp, OF h, unfolded Let_def]
  from L [THEN conjunct1]
  have i1: "post_sse example_env init_request example_world = (Delegated 0, session_world)"
    by (simp add: example_env_fields example_world_fields session_world_eq)
  have h2: "validateApiKey example_env session_request
             \<and> randomUUID example_env (uuids_drawn example_world) \<noteq> []
             \<and> first_value (mcp_session_id session_request)
                 = Some (randomUUID example_env (uuids_drawn example_world))"
    by (simp add: request_eval)
  have plain: "\<not> isInitializeRequest session_request"
    by (simp add: request_eval)
  from L [THEN conjunct2, THEN conjunct2, THEN conjunct2, THEN conjunct1, THEN spec,
          of session_request, THEN mp, OF h2]
  have i3: "fst (post_sse example_env session_request session_world) = Delegated 0"
    by (simp add: example_env_fields example_world_fields session_world_eq
          example_handleRequest_plain [OF plain])
  have hinj: "inj (randomUUID example_env) \<and> session_ids_drawn example_env example_world"
    by (simp add: example_randomUUID_inj session_ids_drawn_initially)
  from L [THEN conjunct2, THEN conjunct2, THEN conjunct2, THEN conjunct2, THEN mp, OF hinj,
          THEN spec, of "[TransportClosed 0, PostSse init_request, Healthz]",
          THEN spec, of session_request, THEN mp, OF h2]
  have i4: "fst (post_sse example_env session_request
              (run example_env [TransportClosed 0, PostSse init_request, Healthz] session_world))
            = Delegated 0"
    by (simp add: example_env_fields example_world_fields session_world_eq
          example_handleRequest_plain [OF plain])
  have h5: "falsy (first_value (mcp_session_id init_request)) \<and> isInitializeRequest init_request
        \<and> \<not> connect_throws example_env (constructed session_world)
        \<and> handleRequest example_env (constructed session_world) init_request = SessionInitialized"
    by (simp add: request_eval)
  note M = again [THEN mp, OF h5, unfolded Let_def]
  from M [THEN conjunct1]
  have i5: "fst (post_sse example_env init_request session_world) = Delegated 1"
    by (simp add: session_world_fields)
  have hinj2: "inj (randomUUID example_env) \<and> session_ids_drawn example_env session_world"
    by (simp add: example_randomUUID_inj session_ids_drawn_session_world)
  from M [THEN conjunct2, THEN conjunct1, THEN mp, OF hinj2]
  have i6: "transports session_world ''uuid-x'' = None"
    and i7: "randomUUID example_env 0 \<noteq> ''uuid-x''"
    by (simp_all add: session_world_fields example_env_fields)
  have h3: "falsy (first_value (mcp_session_id bearer_request))
             \<and> \<not> isInitializeRequest bearer_request"
    by (simp add: request_eval)
  note m = missing [THEN mp, OF h3]
  have h4: "first_value (mcp_session_id unknown_session_request) = Some ''nope'' \<and> ''nope'' \<noteq> []
             \<and> transports example_world ''nope'' = None"
    by (simp add: request_eval)
  from unknown [THEN spec, of "''nope''", THEN mp, OF h4]
  have u: "post_sse example_env unknown_session_request example_world
       = (JsonRpcError 404 (- 32001) ''Unknown MCP session: nope'', example_world)"
    by simp
  from i1 i3 i4 i5 i6 i7 m u show ?thesis
    by (simp add: session_world_fields)
qed

text \<open>
  C5, as stated, fails: with an API key configured, a request that presents none, has no
  session id and is no initialization is answered 401, unauthorized, not 400, missing
  session id.
\<close>

theorem request_without_api_key_is_unauthorized:
  "post_sse keyed_env plain_request example_world
     = (JsonRpcError 401 (- 32600) ''Unauthorized: missing or invalid API key.'', example_world)"
  by (simp add: post_sse_def unauthorized_def request_eval)

text \<open>
  C6, as amended. The session map only grows: when a transport reports closure no code of
  the program runs and the world is unchanged, and after every sequence of events (requests
  on any route, and closures) every session id that was in the map is still in it. When
  \<open>randomUUID\<close> never returns a value twice, the id is still bound to the same transport,
  and a request that passes the API-key check and bears the id is handed to that
  transport: a closed session stays routable to its transport.
\<close>

theorem sessions_are_never_removed:
  "handle e (TransportClosed t') w = (None, w)
   \<and> (transports w sid \<noteq> None \<longrightarrow> transports (run e evs w) sid \<noteq> None)
   \<and> (inj (randomUUID e) \<and> session_ids_drawn e w \<and> transports w sid = Some t \<longrightarrow>
        transports (run e evs w) sid = Some t
        \<and> (\<forall>req. validateApiKey e req \<and> first_value (mcp_session_id req) = Some sid
               \<and> sid \<noteq> [] \<longrightarrow>
             post_sse e req (run e evs w) =
               (case transport_handleRequest e t req (run e evs w) of
                  (Inl err, w2) \<Rightarrow> (JsonRpcFailure 500 (- 32603) err, w2)
                | (Inr u, w2) \<Rightarrow> (Delegated t, w2))))"
proof (intro conjI allI impI)
  show "handle e (TransportClosed t') w = (None, w)" by simp
next
  assume "transports w sid \<noteq> None"
  then show "transports (run e evs w) sid \<noteq> None" by (rule run_keeps_sessions)
next
  assume h: "inj (randomUUID e) \<and> session_ids_drawn e w \<and> transports w sid = Some t"
  then show "transports (run e evs w) sid = Some t"
    by (intro run_keeps_binding) simp_all
next
  fix req
  assume h: "inj (randomUUID e) \<and> session_ids_drawn e w \<and> transports w sid = Some t"
    and b: "validateApiKey e req \<and> first_value (mcp_session_id req) = Some sid \<and> sid \<noteq> []"
  from h have "transports (run e evs w) sid = Some t"
    by (intro run_keeps_binding) simp_all
  with b show "post_sse e req (run e evs w) =
               (case transport_handleRequest e t req (run e evs w) of
                  (Inl err, w2) \<Rightarrow> (JsonRpcFailure 500 (- 32603) err, w2)
                | (Inr u, w2) \<Rightarrow> (Delegated t, w2))"
    by (intro post_sse_known [where sid = sid]) simp_all
qed

text \<open>
  The session opened in \<open>session_world\<close>: after the closure of its transport, a second
  initialization and one more closure, its id is bound to transport 0 as before and a
  request that bears it is handed to transport 0.
\<close>

theorem sessions_are_never_removed_witness:
  "handle example_env (TransportClosed 0) session_world = (None, session_world)
   \<and> transports session_world ''uuid-'' = Some 0
   \<and> transports (run example_env [TransportClosed 0, PostSse init_request, TransportClosed 0]
                   session_world) ''uuid-'' = Some 0
   \<and> fst (post_sse example_env session_request
            (run example_env [TransportClosed 0, PostSse init_request, TransportClosed 0]
               session_world)) = Delegated 0"
proof -
  let ?evs = "[TransportClosed 0, PostSse init_request, TransportClosed 0]"
  note main = sessions_are_never_removed
                [of example_env 0 session_world "''uuid-''" ?evs 0]
  have b: "transports session_world ''uuid-'' = Some 0"
    by (simp add: session_world_fields)
  have h: "inj (randomUUID example_env) \<and> session_ids_drawn example_env session_world
             \<and> transports session_world ''uuid-'' = Some 0"
    by (simp add: example_randomUUID_inj session_ids_drawn_session_world session_world_fields)
  have r: "validateApiKey example_env session_request
             \<and> first_value (mcp_session_id session_request) = Some ''uuid-'' \<and> ''uuid-'' \<noteq> []"
    by (simp add: request_eval)
  have plain: "\<not> isInitializeRequest session_request"
    by (simp add: request_eval)
  note K = main [THEN conjunct2, THEN conjunct2, THEN mp, OF h]
  from K [THEN conjunct2, THEN spec, of session_request, THEN mp, OF r]
  have "fst (post_sse example_env session_request (run example_env ?evs session_world))
          = Delegated 0"
    by (simp add: example_handleRequest_plain [OF plain])
  with main [THEN conjunct1] b K [THEN conjunct1] show ?thesis
    by simp
qed

text \<open>
  C6, as stated, fails: after transport 0 has reported closure, session \<open>uuid-\<close> is still
  in the map, bound to transport 0, and a request that bears its id is not rejected but
  handed to that transport.
\<close>

theorem closed_session_stays_routable:
  "(case handle example_env (TransportClosed 0) session_world of
      (r, w) \<Rightarrow> (transports session_world ''uuid-'', r, transports w ''uuid-'',
                 fst (post_sse example_env session_request w)))
   = (Some 0, None, Some 0, Delegated 0)"
  by (simp add: session_world_fields post_sse_def transport_handleRequest_cases request_eval)

end
